theory Spec2Isabelle
  imports Main "HOL-Library.Sublist"
begin

section \<open>Python strings\<close>

text \<open>
  A Python \<open>str\<close> is a sequence of code points. The model uses \<^typ>\<open>string\<close>, whose
  characters are read as the code points U+0000 to U+00FF (\<^term>\<open>of_char c :: nat\<close> is
  the code point). The range is closed under \<open>str.lower\<close>, which moves A-Z and
  the accented capitals U+00C0 to U+00DE (the multiplication sign U+00D7 apart) 32 places up and
  keeps every other character; \<open>str.isspace\<close> holds in this range of the characters
  9 to 13, 28 to 32, U+0085 and U+00A0.
\<close>

definition lower_char :: "char \<Rightarrow> char" where
  "lower_char c =
     (let n = (of_char c :: nat)
      in if (65 \<le> n \<and> n \<le> 90) \<or> (192 \<le> n \<and> n \<le> 222 \<and> n \<noteq> 215)
         then char_of (n + 32) else c)"

definition str_lower :: "string \<Rightarrow> string" where
  \<comment> \<open>\<open>s.lower()\<close>\<close>
  "str_lower s = map lower_char s"

definition isspace :: "char \<Rightarrow> bool" where
  "isspace c =
     (let n = (of_char c :: nat)
      in (9 \<le> n \<and> n \<le> 13) \<or> (28 \<le> n \<and> n \<le> 32) \<or> n = 133 \<or> n = 160)"

definition str_strip :: "string \<Rightarrow> string" where
  \<comment> \<open>\<open>s.strip()\<close>: whitespace is dropped at both ends\<close>
  "str_strip s = rev (dropWhile isspace (rev (dropWhile isspace s)))"

fun str_in :: "string \<Rightarrow> string \<Rightarrow> bool" where
  \<comment> \<open>\<open>k in s\<close>: \<open>k\<close> starts at some position of \<open>s\<close>\<close>
  "str_in k [] = (k = [])"
| "str_in k (c # cs) = (prefix k (c # cs) \<or> str_in k cs)"

fun replace_from :: "string \<Rightarrow> string \<Rightarrow> string \<Rightarrow> string" where
  \<comment> \<open>the scan of \<open>str.replace\<close> for a non-empty \<open>old\<close>: the leftmost occurrence is
      replaced and the scan goes on behind it (the \<open>length old\<close> characters of the
      occurrence are the head and \<open>length old - 1\<close> more)\<close>
  "replace_from old new [] = []"
| "replace_from old new (c # cs) =
     (if prefix old (c # cs) then new @ replace_from old new (drop (length old - 1) cs)
      else c # replace_from old new cs)"

definition str_replace :: "string \<Rightarrow> string \<Rightarrow> string \<Rightarrow> string" where
  \<comment> \<open>\<open>s.replace(old, new)\<close>; an empty \<open>old\<close> matches before every character and at
      the end\<close>
  "str_replace s old new =
     (if old = [] then new @ concat (map (\<lambda>c. c # new) s) else replace_from old new s)"

fun str_join :: "string \<Rightarrow> string list \<Rightarrow> string" where
  \<comment> \<open>\<open>sep.join(xs)\<close>\<close>
  "str_join sep [] = []"
| "str_join sep [x] = x"
| "str_join sep (x # y # ys) = x @ sep @ str_join sep (y # ys)"

section \<open>The intent classifier\<close>

definition add_keywords :: "string list" where
  "add_keywords = [''add'', ''create'', ''new'', ''make'', ''remember'', ''remind'']"

definition list_keywords :: "string list" where
  "list_keywords = [''list'', ''show'', ''see'', ''view'', ''display'', ''all'', ''my'']"

definition complete_keywords :: "string list" where
  "complete_keywords = [''complete'', ''done'', ''finish'', ''mark'', ''as done'', ''check'']"

definition delete_keywords :: "string list" where
  "delete_keywords = [''delete'', ''remove'', ''cancel'', ''erase'', ''get rid of'']"

definition update_keywords :: "string list" where
  "update_keywords = [''update'', ''change'', ''modify'', ''edit'', ''rename'', ''fix'']"

definition determine_intent :: "string \<Rightarrow> string" where
  \<comment> \<open>\<open>AIChatService._determine_intent\<close>\<close>
  "determine_intent user_input =
     (let user_input = str_lower user_input
      in if list_ex (\<lambda>keyword. str_in keyword user_input) add_keywords then ''add''
         else if list_ex (\<lambda>keyword. str_in keyword user_input) list_keywords then ''list''
         else if list_ex (\<lambda>keyword. str_in keyword user_input) complete_keywords then ''complete''
         else if list_ex (\<lambda>keyword. str_in keyword user_input) delete_keywords then ''delete''
         else if list_ex (\<lambda>keyword. str_in keyword user_input) update_keywords then ''update''
         else ''other'')"

subsection \<open>The classifier as the specification words it\<close>

definition occurs_in :: "string \<Rightarrow> string \<Rightarrow> bool" where
  \<comment> \<open>\<open>k\<close> is a substring of \<open>s\<close>\<close>
  "occurs_in k s \<longleftrightarrow> (\<exists>before after. s = before @ k @ after)"

definition has_keyword :: "string list \<Rightarrow> string \<Rightarrow> bool" where
  "has_keyword kws s \<longleftrightarrow> (\<exists>k \<in> set kws. occurs_in k s)"

definition priority_order :: "(string \<times> string list) list" where
  "priority_order =
     [(''add'', add_keywords), (''list'', list_keywords), (''complete'', complete_keywords),
      (''delete'', delete_keywords), (''update'', update_keywords)]"

fun first_match :: "(string \<times> string list) list \<Rightarrow> string \<Rightarrow> string" where
  "first_match [] s = ''other''"
| "first_match ((name, kws) # rest) s = (if has_keyword kws s then name else first_match rest s)"

definition classify :: "string \<Rightarrow> string" where
  "classify text = first_match priority_order (str_lower text)"

section \<open>The slot extractor\<close>

definition extract_todo_info :: "string \<Rightarrow> (string \<rightharpoonup> string)" where
  \<comment> \<open>\<open>AIChatService._extract_todo_info\<close>; the loop over the prefixes is the fold\<close>
  "extract_todo_info user_input =
     (let user_input = str_lower user_input;
          user_input = foldl (\<lambda>user_input prefix. str_strip (str_replace user_input prefix ''''))
                         user_input
                         [''add'', ''create'', ''new'', ''remember'', ''remind'', ''me'', ''to''];
          title = str_strip user_input
      in [''title'' \<mapsto> title, ''description'' \<mapsto> ''''])"

subsection \<open>The title extractor as the specification words it\<close>

definition filler_tokens :: "string list" where
  "filler_tokens = [''add'', ''create'', ''new'', ''remember'', ''remind'', ''me'', ''to'']"

definition trim :: "string \<Rightarrow> string" where
  \<comment> \<open>leading and trailing whitespace removed\<close>
  "trim s = rev (dropWhile isspace (rev (dropWhile isspace s)))"

fun remove_token :: "string \<Rightarrow> string \<Rightarrow> string" where
  \<comment> \<open>every occurrence of \<open>tok\<close> in the text, found from the left, is left out\<close>
  "remove_token tok [] = []"
| "remove_token tok (c # cs) =
     (if prefix tok (c # cs) then remove_token tok (drop (length tok - 1) cs)
      else c # remove_token tok cs)"

fun remove_fillers :: "string list \<Rightarrow> string \<Rightarrow> string" where
  \<comment> \<open>the tokens in their order, trimming after each removal\<close>
  "remove_fillers [] s = s"
| "remove_fillers (tok # toks) s = remove_fillers toks (trim (remove_token tok s))"

definition extract_title :: "string \<Rightarrow> string" where
  "extract_title text = remove_fillers filler_tokens (str_lower text)"

section \<open>Exceptions and the database session\<close>

text \<open>
  The services the chat service calls (\<open>ConversationService\<close>, \<open>MessageService\<close>,
  \<open>TodoService\<close> and the Gemini model) live in other files. A call takes the session
  and may raise, so a call is a function from the state behind the session to a result or an
  exception, and the state it leaves. Only \<open>str(e)\<close> of an exception is ever used.
\<close>

datatype exn = Exception (detail: string)

type_synonym ('a, 's) io = "'s \<Rightarrow> (exn + 'a) \<times> 's"

definition io_return :: "'a \<Rightarrow> ('a, 's) io" where
  "io_return x = (\<lambda>s. (Inr x, s))"

definition io_raise :: "exn \<Rightarrow> ('a, 's) io" where
  "io_raise e = (\<lambda>s. (Inl e, s))"

definition io_bind :: "('a, 's) io \<Rightarrow> ('a \<Rightarrow> ('b, 's) io) \<Rightarrow> ('b, 's) io" where
  \<comment> \<open>one statement after another: an exception ends the sequence\<close>
  "io_bind m f = (\<lambda>s. case m s of (Inl e, s') \<Rightarrow> (Inl e, s') | (Inr x, s') \<Rightarrow> f x s')"

definition io_try :: "('a, 's) io \<Rightarrow> (exn \<Rightarrow> ('a, 's) io) \<Rightarrow> ('a, 's) io" where
  \<comment> \<open>\<open>try: m except Exception as e: h e\<close>\<close>
  "io_try m h = (\<lambda>s. case m s of (Inl e, s') \<Rightarrow> h e s' | (Inr x, s') \<Rightarrow> (Inr x, s'))"

section \<open>The data the services exchange\<close>

record message =
  role :: string
  content :: string

record 'i todo =
  todo_id :: 'i
  title :: string
  description :: string
  is_completed :: bool

text \<open>\<open>TodoCreate(title=..., description=..., is_completed=...)\<close>\<close>

record todo_create =
  create_title :: string
  create_description :: string
  create_is_completed :: bool

text \<open>\<open>TodoUpdate(title=...)\<close>: a field that is not given is \<open>None\<close>.\<close>

record todo_update =
  update_title :: "string option"
  update_description :: "string option"
  update_is_completed :: "bool option"

text \<open>An entry of the history given to the model: \<open>{"role": ..., "parts": [...]}\<close>.\<close>

record chat_entry =
  entry_role :: string
  parts :: "string list"

text \<open>
  The services, as the chat service calls them: the session argument is the state, pages and
  limits are the numbers passed, \<open>completed\<close> of \<open>get_user_todos\<close> is \<open>None\<close>
  where the call leaves it out. \<open>send_message\<close> stands for
  \<open>self.model.start_chat(history=h).send_message(text).text\<close>, and \<open>str_id\<close> for
  \<open>str\<close> on the type of a todo's id.
\<close>

record ('s, 'u, 'c, 'i) services =
  get_user_conversations :: "'u \<Rightarrow> nat \<Rightarrow> nat \<Rightarrow> ('c list \<times> nat, 's) io"
  create_conversation :: "'u \<Rightarrow> ('c, 's) io"
  create_message :: "'c \<Rightarrow> string \<Rightarrow> string \<Rightarrow> (message, 's) io"
  get_messages_by_conversation :: "'c \<Rightarrow> 'u \<Rightarrow> nat \<Rightarrow> nat \<Rightarrow> (message list \<times> nat, 's) io"
  get_user_todos :: "'u \<Rightarrow> bool option \<Rightarrow> nat \<Rightarrow> nat \<Rightarrow> ('i todo list \<times> nat, 's) io"
  create_todo :: "'u \<Rightarrow> todo_create \<Rightarrow> ('i todo, 's) io"
  toggle_todo_completion :: "string \<Rightarrow> 'u \<Rightarrow> ('i todo, 's) io"
  delete_todo :: "string \<Rightarrow> 'u \<Rightarrow> (bool, 's) io"
  update_todo :: "string \<Rightarrow> 'u \<Rightarrow> todo_update \<Rightarrow> ('i todo, 's) io"
  send_message :: "chat_entry list \<Rightarrow> string \<Rightarrow> (string, 's) io"
  str_id :: "'i \<Rightarrow> string"

section \<open>The handlers\<close>

definition quoted :: "string \<Rightarrow> string" where
  \<comment> \<open>\<open>'{s}'\<close> in an f-string\<close>
  "quoted s = [CHR 0x27] @ s @ [CHR 0x27]"

definition newline :: string where
  "newline = [CHR 0x0A]"

definition error_response :: "exn \<Rightarrow> string" where
  \<comment> \<open>the f-string of both \<open>except\<close> clauses\<close>
  "error_response e = ''I'm sorry, I encountered an error processing your request: '' @ detail e"

definition dict_get :: "(string \<rightharpoonup> string) \<Rightarrow> string \<Rightarrow> (string, 's) io" where
  \<comment> \<open>\<open>d[k]\<close>: a missing key raises \<open>KeyError(k)\<close>\<close>
  "dict_get d k = (case d k of None \<Rightarrow> io_raise (Exception (quoted k)) | Some v \<Rightarrow> io_return v)"

definition extract_todo_id :: "('s, 'u, 'c, 'i) services \<Rightarrow> string \<Rightarrow> 'u \<Rightarrow> (string, 's) io" where
  \<comment> \<open>\<open>AIChatService._extract_todo_id\<close>\<close>
  "extract_todo_id sv user_input user =
     io_bind (get_user_todos sv user None 1 1) (\<lambda>(todos, _).
       case todos of
         t # _ \<Rightarrow> io_return (str_id sv (todo_id t))
       | [] \<Rightarrow> io_return '''')"

definition handle_add_todo :: "('s, 'u, 'c, 'i) services \<Rightarrow> string \<Rightarrow> 'u \<Rightarrow> (string, 's) io" where
  \<comment> \<open>\<open>AIChatService._handle_add_todo\<close>\<close>
  "handle_add_todo sv user_input user =
     (let todo_info = extract_todo_info user_input
      in io_bind (dict_get todo_info ''title'') (\<lambda>t.
         io_bind (dict_get todo_info ''description'') (\<lambda>d.
         let todo_data = \<lparr>create_title = t, create_description = d, create_is_completed = False\<rparr>
         in io_bind (create_todo sv user todo_data) (\<lambda>new_todo.
            io_return (''I've added '' @ quoted (title new_todo) @ '' to your todo list.'')))))"

definition handle_list_todos :: "('s, 'u, 'c, 'i) services \<Rightarrow> string \<Rightarrow> 'u \<Rightarrow> (string, 's) io" where
  \<comment> \<open>\<open>AIChatService._handle_list_todos\<close>\<close>
  "handle_list_todos sv user_input user =
     (let user_input_lower = str_lower user_input;
          status_filter =
            (if str_in ''pending'' user_input_lower \<or> str_in ''incomplete'' user_input_lower
             then Some False
             else if str_in ''completed'' user_input_lower \<or> str_in ''done'' user_input_lower
             then Some True
             else None)
      in io_bind (get_user_todos sv user status_filter 1 20) (\<lambda>(todos, _).
         if todos = [] then
           (if status_filter = Some False
            then io_return ''You don't have any pending todos right now.''
            else if status_filter = Some True
            then io_return ''You don't have any completed todos right now.''
            else io_return ''You don't have any todos right now.'')
         else
           (let todo_list = str_join newline (map (\<lambda>todo. ''- '' @ title todo) todos)
            in if status_filter = Some False
               then io_return (''Here are your pending todos:'' @ newline @ todo_list)
               else if status_filter = Some True
               then io_return (''Here are your completed todos:'' @ newline @ todo_list)
               else io_return (''Here are your todos:'' @ newline @ todo_list))))"

definition handle_complete_todo :: "('s, 'u, 'c, 'i) services \<Rightarrow> string \<Rightarrow> 'u \<Rightarrow> (string, 's) io" where
  \<comment> \<open>\<open>AIChatService._handle_complete_todo\<close>\<close>
  "handle_complete_todo sv user_input user =
     io_bind (extract_todo_id sv user_input user) (\<lambda>todo_id.
       if todo_id = [] then
         io_return (''I couldn't find a specific todo to mark as complete. ''
                    @ ''Please specify which todo you want to complete.'')
       else
         io_bind (toggle_todo_completion sv todo_id user) (\<lambda>todo.
           let status = (if is_completed todo then ''completed'' else ''marked as incomplete'')
           in io_return (''I've marked '' @ quoted (title todo) @ '' as '' @ status @ ''.'')))"

definition handle_delete_todo :: "('s, 'u, 'c, 'i) services \<Rightarrow> string \<Rightarrow> 'u \<Rightarrow> (string, 's) io" where
  \<comment> \<open>\<open>AIChatService._handle_delete_todo\<close>\<close>
  "handle_delete_todo sv user_input user =
     io_bind (extract_todo_id sv user_input user) (\<lambda>todo_id.
       if todo_id = [] then
         io_return (''I couldn't find a specific todo to delete. ''
                    @ ''Please specify which todo you want to delete.'')
       else
         io_bind (delete_todo sv todo_id user) (\<lambda>success.
           if success then io_return ''The todo has been deleted successfully.''
           else io_return (''I couldn't delete that todo. ''
                    @ ''It may not exist or you may not have permission to delete it.'')))"

definition handle_update_todo :: "('s, 'u, 'c, 'i) services \<Rightarrow> string \<Rightarrow> 'u \<Rightarrow> (string, 's) io" where
  \<comment> \<open>\<open>AIChatService._handle_update_todo\<close>\<close>
  "handle_update_todo sv user_input user =
     io_bind (get_user_todos sv user None 1 1) (\<lambda>(todos, _).
       case todos of
         [] \<Rightarrow> io_return ''You don't have any todos to update.''
       | t # _ \<Rightarrow>
           (let new_title =
                  str_strip (str_replace (str_replace (str_replace user_input
                     ''update'' '''') ''change'' '''') ''modify'' '''')
            in if new_title = [] then
                 io_return ''Please specify what you'd like to change the todo to.''
               else
                 (let update_data = \<lparr>update_title = Some new_title, update_description = None,
                                      update_is_completed = None\<rparr>
                  in io_bind (update_todo sv (str_id sv (todo_id t)) user update_data)
                       (\<lambda>updated_todo.
                          io_return (''I've updated the todo to '' @ quoted (title updated_todo)
                                     @ ''.'')))))"

definition handle_general_query ::
  "('s, 'u, 'c, 'i) services \<Rightarrow> string \<Rightarrow> 'c \<Rightarrow> 'u \<Rightarrow> (string, 's) io" where
  \<comment> \<open>\<open>AIChatService._handle_general_query\<close>; \<open>formatted_history[:-1]\<close> is
      \<^const>\<open>butlast\<close>\<close>
  "handle_general_query sv user_input conversation user =
     io_bind (get_messages_by_conversation sv conversation user 1 10) (\<lambda>(recent_messages, _).
       let formatted_history =
             map (\<lambda>msg. \<lparr>entry_role = role msg, parts = [content msg]\<rparr>) recent_messages;
           formatted_history =
             formatted_history @ [\<lparr>entry_role = ''user'', parts = [user_input]\<rparr>]
       in io_try (send_message sv (butlast formatted_history) user_input)
            (\<lambda>e. io_return (error_response e)))"

section \<open>The dispatcher\<close>

definition dispatch_intent ::
  "('s, 'u, 'c, 'i) services \<Rightarrow> string \<Rightarrow> string \<Rightarrow> 'c \<Rightarrow> 'u \<Rightarrow> (string, 's) io" where
  \<comment> \<open>the body of the \<open>try\<close> block of \<open>process_natural_language_todo_command\<close>\<close>
  "dispatch_intent sv intent user_input conversation user =
     (if intent = ''add'' then handle_add_todo sv user_input user
      else if intent = ''list'' then handle_list_todos sv user_input user
      else if intent = ''complete'' then handle_complete_todo sv user_input user
      else if intent = ''delete'' then handle_delete_todo sv user_input user
      else if intent = ''update'' then handle_update_todo sv user_input user
      else handle_general_query sv user_input conversation user)"

definition process_natural_language_todo_command ::
  "('s, 'u, 'c, 'i) services \<Rightarrow> string \<Rightarrow> 'u \<Rightarrow> (string, 's) io" where
  \<comment> \<open>\<open>AIChatService.process_natural_language_todo_command\<close>\<close>
  "process_natural_language_todo_command sv user_input user =
     io_bind (get_user_conversations sv user 1 1) (\<lambda>(conversations, _).
     io_bind (case conversations of
                c # _ \<Rightarrow> io_return c
              | [] \<Rightarrow> create_conversation sv user) (\<lambda>conversation.
     io_bind (create_message sv conversation ''user'' user_input) (\<lambda>_.
     let intent = determine_intent (str_lower user_input)
     in io_bind (io_try (dispatch_intent sv intent user_input conversation user)
                   (\<lambda>e. io_return (error_response e))) (\<lambda>response.
        io_bind (create_message sv conversation ''assistant'' response) (\<lambda>_.
        io_return response)))))"

definition process_chat :: "('s, 'u, 'c, 'i) services \<Rightarrow> string \<Rightarrow> 'u \<Rightarrow> (string, 's) io" where
  \<comment> \<open>\<open>AIChatService.process_chat\<close>\<close>
  "process_chat sv user_input user =
     io_bind (get_user_conversations sv user 1 1) (\<lambda>(conversations, _).
     io_bind (case conversations of
                c # _ \<Rightarrow> io_return c
              | [] \<Rightarrow> create_conversation sv user) (\<lambda>conversation.
     io_bind (create_message sv conversation ''user'' user_input) (\<lambda>_.
     io_bind (get_messages_by_conversation sv conversation user 1 10) (\<lambda>(recent_messages, _).
     let formatted_history =
           map (\<lambda>msg. \<lparr>entry_role = role msg, parts = [content msg]\<rparr>) recent_messages;
         formatted_history =
           formatted_history @ [\<lparr>entry_role = ''user'', parts = [user_input]\<rparr>]
     in io_bind (io_try (send_message sv (butlast formatted_history) user_input)
                   (\<lambda>e. io_return (error_response e))) (\<lambda>ai_response.
        io_bind (create_message sv conversation ''assistant'' ai_response) (\<lambda>_.
        io_return ai_response))))))"

section \<open>The claims' vocabulary\<close>

definition active_conversation :: "('s, 'u, 'c, 'i) services \<Rightarrow> 'u \<Rightarrow> ('c, 's) io" where
  \<comment> \<open>the user's most recent conversation, created if the user has none\<close>
  "active_conversation sv user =
     io_bind (get_user_conversations sv user 1 1) (\<lambda>(conversations, cnt).
       case conversations of [] \<Rightarrow> create_conversation sv user | c # rest \<Rightarrow> io_return c)"

definition classified_handler ::
  "('s, 'u, 'c, 'i) services \<Rightarrow> string \<Rightarrow> 'c \<Rightarrow> 'u \<Rightarrow> (string, 's) io" where
  \<comment> \<open>the handler the dispatcher invokes for an input\<close>
  "classified_handler sv user_input conversation user =
     dispatch_intent sv (determine_intent (str_lower user_input)) user_input conversation user"

definition preserves :: "('s \<Rightarrow> 'l) \<Rightarrow> ('a, 's) io \<Rightarrow> bool" where
  \<comment> \<open>an action leaves what \<open>view\<close> shows of the state as it is, whatever it returns\<close>
  "preserves view m \<longleftrightarrow> (\<forall>s. view (snd (m s)) = view s)"

definition message_log :: "('s, 'u, 'c, 'i) services \<Rightarrow> ('s \<Rightarrow> ('c \<times> message) list) \<Rightarrow> bool" where
  \<comment> \<open>\<open>log\<close> reads the persisted messages off the state: a successful
      \<open>create_message\<close> appends one message to one conversation, and no other service
      writes messages\<close>
  "message_log sv log \<longleftrightarrow>
     (\<forall>c r t s m s'. create_message sv c r t s = (Inr m, s')
        \<longrightarrow> log s' = log s @ [(c, \<lparr>role = r, content = t\<rparr>)])
     \<and> (\<forall>u p l. preserves log (get_user_conversations sv u p l))
     \<and> (\<forall>u. preserves log (create_conversation sv u))
     \<and> (\<forall>c u p l. preserves log (get_messages_by_conversation sv c u p l))
     \<and> (\<forall>u f p l. preserves log (get_user_todos sv u f p l))
     \<and> (\<forall>u d. preserves log (create_todo sv u d))
     \<and> (\<forall>i u. preserves log (toggle_todo_completion sv i u))
     \<and> (\<forall>i u. preserves log (delete_todo sv i u))
     \<and> (\<forall>i u d. preserves log (update_todo sv i u d))
     \<and> (\<forall>h t. preserves log (send_message sv h t))"

definition status_filter_of :: "string \<Rightarrow> bool option" where
  \<comment> \<open>the filter of a List input: pending or incomplete, else completed or done, else none\<close>
  "status_filter_of text =
     (let t = str_lower text
      in if occurs_in ''pending'' t \<or> occurs_in ''incomplete'' t then Some False
         else if occurs_in ''completed'' t \<or> occurs_in ''done'' t then Some True
         else None)"

definition list_heading :: "bool option \<Rightarrow> string" where
  "list_heading f =
     (case f of
        Some False \<Rightarrow> ''Here are your pending todos:''
      | Some True \<Rightarrow> ''Here are your completed todos:''
      | None \<Rightarrow> ''Here are your todos:'')"

fun bulleted :: "string list \<Rightarrow> string" where
  \<comment> \<open>one line \<open>- title\<close> for each title, with a newline between two lines\<close>
  "bulleted [] = []"
| "bulleted [t] = ''- '' @ t"
| "bulleted (t # u # us) = ''- '' @ t @ [CHR 0x0A] @ bulleted (u # us)"

definition update_title_of :: "string \<Rightarrow> string" where
  \<comment> \<open>the input as it is typed, with update, change and modify removed one after the
      other, then trimmed\<close>
  "update_title_of text =
     trim (remove_token ''modify'' (remove_token ''change'' (remove_token ''update'' text)))"

definition history_of :: "message list \<Rightarrow> chat_entry list" where
  \<comment> \<open>the role-tagged history of a list of messages\<close>
  "history_of msgs = map (\<lambda>m. \<lparr>entry_role = role m, parts = [content m]\<rparr>) msgs"

section \<open>An in-memory store\<close>

text \<open>
  Modelled from the spec: the Todo Store, the Conversation Store, the Message Store and the
  AI Completion Client (section 6 of the specification) are the services of the files that are
  not among the sources. Users, conversations and todos are numbered; listings are newest
  first, except the messages of a conversation, which are listed in insertion order, the
  last ones on page 1 (section 4.3: the last 10 messages of the active conversation).
\<close>

record world =
  conv_table :: "(nat \<times> nat) list"
  msg_table :: "(nat \<times> message) list"
  todo_table :: "(nat \<times> nat todo) list"
  next_id :: nat
  ai_log :: "(chat_entry list \<times> string) list"

definition page_of :: "'a list \<Rightarrow> nat \<Rightarrow> nat \<Rightarrow> 'a list" where
  \<comment> \<open>Modelled from the spec: a page of at most \<open>limit\<close> items\<close>
  "page_of xs page limit = take limit (drop ((page - 1) * limit) xs)"

definition digit_char :: "nat \<Rightarrow> char" where
  "digit_char d = char_of (48 + d)"

fun str_nat :: "nat \<Rightarrow> string" where
  \<comment> \<open>\<open>str(n)\<close> of a natural number\<close>
  "str_nat n = (if n < 10 then [digit_char n] else str_nat (n div 10) @ [digit_char (n mod 10)])"

declare str_nat.simps [simp del]

definition mem_get_user_conversations :: "nat \<Rightarrow> nat \<Rightarrow> nat \<Rightarrow> (nat list \<times> nat, world) io" where
  \<comment> \<open>Modelled from the spec: \<open>list_recent(owner, page, limit) -> (conversations, total)\<close>;
      \<^const>\<open>conv_table\<close> holds (conversation, owner), newest first\<close>
  "mem_get_user_conversations user page limit =
     (\<lambda>w. let mine = map fst (filter (\<lambda>(c, owner). owner = user) (conv_table w))
          in (Inr (page_of mine page limit, length mine), w))"

definition mem_create_conversation :: "nat \<Rightarrow> (nat, world) io" where
  \<comment> \<open>Modelled from the spec: \<open>create(owner) -> conversation\<close>\<close>
  "mem_create_conversation user =
     (\<lambda>w. (Inr (next_id w),
            w\<lparr>conv_table := (next_id w, user) # conv_table w, next_id := Suc (next_id w)\<rparr>))"

definition mem_create_message :: "nat \<Rightarrow> string \<Rightarrow> string \<Rightarrow> (message, world) io" where
  \<comment> \<open>Modelled from the spec: \<open>append(conversation, role, content) -> message\<close>;
      \<^const>\<open>msg_table\<close> holds (conversation, message) in insertion order\<close>
  "mem_create_message conversation r text =
     (\<lambda>w. (Inr \<lparr>role = r, content = text\<rparr>,
            w\<lparr>msg_table := msg_table w @ [(conversation, \<lparr>role = r, content = text\<rparr>)]\<rparr>))"

definition mem_get_messages_by_conversation ::
  "nat \<Rightarrow> nat \<Rightarrow> nat \<Rightarrow> nat \<Rightarrow> (message list \<times> nat, world) io" where
  \<comment> \<open>Modelled from the spec: \<open>list(conversation, owner, page, limit) -> (messages, total)\<close>,
      the messages of the owner's conversation in insertion order, the last ones on page 1\<close>
  "mem_get_messages_by_conversation conversation user page limit =
     (\<lambda>w. let its = (if (conversation, user) \<in> set (conv_table w)
                      then map snd (filter (\<lambda>(c, m). c = conversation) (msg_table w))
                      else [])
          in (Inr (rev (page_of (rev its) page limit), length its), w))"

definition mem_get_user_todos ::
  "nat \<Rightarrow> bool option \<Rightarrow> nat \<Rightarrow> nat \<Rightarrow> (nat todo list \<times> nat, world) io" where
  \<comment> \<open>Modelled from the spec: \<open>list(owner, completed?, page, limit) -> (items, total)\<close>;
      \<^const>\<open>todo_table\<close> holds (owner, todo), newest first\<close>
  "mem_get_user_todos user completed page limit =
     (\<lambda>w. let mine = map snd (filter (\<lambda>(owner, t). owner = user
                  \<and> (case completed of None \<Rightarrow> True | Some b \<Rightarrow> is_completed t = b))
                  (todo_table w))
          in (Inr (page_of mine page limit, length mine), w))"

definition mem_create_todo :: "nat \<Rightarrow> todo_create \<Rightarrow> (nat todo, world) io" where
  \<comment> \<open>Modelled from the spec: \<open>create(owner, title, description, completed) -> item\<close>\<close>
  "mem_create_todo user d =
     (\<lambda>w. let t = \<lparr>todo_id = next_id w, title = create_title d,
                    description = create_description d, is_completed = create_is_completed d\<rparr>
          in (Inr t, w\<lparr>todo_table := (user, t) # todo_table w, next_id := Suc (next_id w)\<rparr>))"

definition names :: "string \<Rightarrow> nat \<Rightarrow> nat \<times> nat todo \<Rightarrow> bool" where
  \<comment> \<open>Modelled from the spec: the todo of that id, owned by that user\<close>
  "names sid user = (\<lambda>(owner, t). owner = user \<and> str_nat (todo_id t) = sid)"

definition toggled :: "string \<Rightarrow> nat \<Rightarrow> nat \<times> nat todo \<Rightarrow> nat \<times> nat todo" where
  \<comment> \<open>Modelled from the spec: the completion flag of the named todo is inverted\<close>
  "toggled sid user =
     (\<lambda>(owner, t). if names sid user (owner, t)
                     then (owner, t\<lparr>is_completed := \<not> is_completed t\<rparr>)
                     else (owner, t))"

definition mem_toggle_todo_completion :: "string \<Rightarrow> nat \<Rightarrow> (nat todo, world) io" where
  \<comment> \<open>Modelled from the spec:
      \<open>toggle_completion(id, owner) -> item | fails NotFound/Forbidden\<close>\<close>
  "mem_toggle_todo_completion sid user =
     (\<lambda>w. case find (names sid user) (todo_table w) of
            None \<Rightarrow> (Inl (Exception ''Todo not found''), w)
          | Some (owner, t) \<Rightarrow>
              (Inr (t\<lparr>is_completed := \<not> is_completed t\<rparr>),
               w\<lparr>todo_table := map (toggled sid user) (todo_table w)\<rparr>))"

definition mem_delete_todo :: "string \<Rightarrow> nat \<Rightarrow> (bool, world) io" where
  \<comment> \<open>Modelled from the spec: \<open>delete(id, owner) -> bool\<close>\<close>
  "mem_delete_todo sid user =
     (\<lambda>w. case find (names sid user) (todo_table w) of
            None \<Rightarrow> (Inr False, w)
          | Some x \<Rightarrow>
              (Inr True, w\<lparr>todo_table := filter (\<lambda>x. \<not> names sid user x) (todo_table w)\<rparr>))"

definition apply_update :: "todo_update \<Rightarrow> nat todo \<Rightarrow> nat todo" where
  \<comment> \<open>Modelled from the spec: the fields that are given are set\<close>
  "apply_update d t =
     t\<lparr>title := (case update_title d of None \<Rightarrow> title t | Some x \<Rightarrow> x),
       description := (case update_description d of None \<Rightarrow> description t | Some x \<Rightarrow> x),
       is_completed := (case update_is_completed d of None \<Rightarrow> is_completed t | Some x \<Rightarrow> x)\<rparr>"

definition mem_update_todo :: "string \<Rightarrow> nat \<Rightarrow> todo_update \<Rightarrow> (nat todo, world) io" where
  \<comment> \<open>Modelled from the spec:
      \<open>update(id, owner, fields) -> item | fails NotFound/Forbidden\<close>\<close>
  "mem_update_todo sid user d =
     (\<lambda>w. case find (names sid user) (todo_table w) of
            None \<Rightarrow> (Inl (Exception ''Todo not found''), w)
          | Some (owner, t) \<Rightarrow>
              (Inr (apply_update d t),
               w\<lparr>todo_table :=
                   map (\<lambda>(owner, t). if names sid user (owner, t) then (owner, apply_update d t)
                                     else (owner, t))
                     (todo_table w)\<rparr>))"

definition mem_send_message ::
  "(chat_entry list \<Rightarrow> string \<Rightarrow> exn + string) \<Rightarrow> chat_entry list \<Rightarrow> string \<Rightarrow> (string, world) io" where
  \<comment> \<open>Modelled from the spec: \<open>complete(history, next_input) -> text | fails\<close>; the client
      answers by \<open>reply\<close>, and \<^const>\<open>ai_log\<close> keeps what it was sent\<close>
  "mem_send_message reply history text =
     (\<lambda>w. (reply history text, w\<lparr>ai_log := ai_log w @ [(history, text)]\<rparr>))"

definition mem_services ::
  "(chat_entry list \<Rightarrow> string \<Rightarrow> exn + string) \<Rightarrow> (world, nat, nat, nat) services" where
  \<comment> \<open>Modelled from the spec: the four collaborators together\<close>
  "mem_services reply =
     \<lparr>get_user_conversations = mem_get_user_conversations,
      create_conversation = mem_create_conversation,
      create_message = mem_create_message,
      get_messages_by_conversation = mem_get_messages_by_conversation,
      get_user_todos = mem_get_user_todos,
      create_todo = mem_create_todo,
      toggle_todo_completion = mem_toggle_todo_completion,
      delete_todo = mem_delete_todo,
      update_todo = mem_update_todo,
      send_message = mem_send_message reply,
      str_id = str_nat\<rparr>"

definition empty_world :: world where
  "empty_world = \<lparr>conv_table = [], msg_table = [], todo_table = [], next_id = 1, ai_log = []\<rparr>"

definition echo :: "chat_entry list \<Rightarrow> string \<Rightarrow> exn + string" where
  \<comment> \<open>a model that answers every input with the same text\<close>
  "echo history text = Inr ''Hello! How can I help?''"

subsection \<open>Stores for the examples\<close>

definition milk :: "nat todo" where
  "milk = \<lparr>todo_id = 2, title = ''buy milk'', description = '''', is_completed = False\<rparr>"

definition eggs :: "nat todo" where
  "eggs = \<lparr>todo_id = 1, title = ''boil eggs'', description = '''', is_completed = True\<rparr>"

definition todo_world :: world where
  \<comment> \<open>user 1 owns two todos, the pending one the more recent, and has no conversation\<close>
  "todo_world = \<lparr>conv_table = [], msg_table = [], todo_table = [(1, milk), (1, eggs)],
                  next_id = 3, ai_log = []\<rparr>"

definition connection_lost :: exn where
  "connection_lost = Exception ''connection lost''"

definition broken_toggle :: "(world, nat, nat, nat) services" where
  "broken_toggle = mem_services echo\<lparr>toggle_todo_completion := \<lambda>i u. io_raise connection_lost\<rparr>"

definition broken_toggle_and_log :: "(world, nat, nat, nat) services" where
  \<comment> \<open>the toggle fails, and so does logging a message of role assistant\<close>
  "broken_toggle_and_log =
     mem_services echo\<lparr>toggle_todo_completion := \<lambda>i u. io_raise connection_lost,
       create_message := \<lambda>c r t.
         if r = ''assistant'' then io_raise connection_lost else mem_create_message c r t\<rparr>"

definition broken_listing :: "(world, nat, nat, nat) services" where
  "broken_listing = mem_services echo\<lparr>get_user_todos := \<lambda>u f p l. io_raise connection_lost\<rparr>"

definition no_lookup :: "(world, nat, nat, nat) services" where
  "no_lookup = mem_services echo\<lparr>get_user_conversations := \<lambda>u p l. io_raise connection_lost\<rparr>"

definition no_creation :: "(world, nat, nat, nat) services" where
  "no_creation = mem_services echo\<lparr>create_conversation := \<lambda>u. io_raise connection_lost\<rparr>"

definition no_logging :: "(world, nat, nat, nat) services" where
  "no_logging = mem_services echo\<lparr>create_message := \<lambda>c r t. io_raise connection_lost\<rparr>"

definition no_assistant_logging :: "(world, nat, nat, nat) services" where
  "no_assistant_logging =
     mem_services echo\<lparr>create_message := \<lambda>c r t.
       if r = ''assistant'' then io_raise connection_lost else mem_create_message c r t\<rparr>"

section \<open>Facts about the string operations\<close>

lemma str_in_iff: "str_in k s \<longleftrightarrow> occurs_in k s"
proof (induction s)
  case Nil
  show ?case by (simp add: occurs_in_def)
next
  case (Cons c cs)
  show ?case
  proof
    assume "str_in k (c # cs)"
    then consider "prefix k (c # cs)" | "str_in k cs" by auto
    then show "occurs_in k (c # cs)"
    proof cases
      case 1
      then obtain after where "c # cs = k @ after" by (auto simp: prefix_def)
      then have "c # cs = [] @ k @ after" by simp
      then show ?thesis unfolding occurs_in_def by blast
    next
      case 2
      with Cons.IH obtain before after where "cs = before @ k @ after"
        by (auto simp: occurs_in_def)
      then have "c # cs = (c # before) @ k @ after" by simp
      then show ?thesis unfolding occurs_in_def by blast
    qed
  next
    assume "occurs_in k (c # cs)"
    then obtain before after where eq: "c # cs = before @ k @ after"
      by (auto simp: occurs_in_def)
    show "str_in k (c # cs)"
    proof (cases before)
      case Nil
      with eq have "prefix k (c # cs)" by (simp add: prefix_def)
      then show ?thesis by simp
    next
      case (Cons b bs)
      with eq have "cs = bs @ k @ after" by simp
      then have "occurs_in k cs" unfolding occurs_in_def by blast
      with Cons.IH show ?thesis by simp
    qed
  qed
qed

lemma list_ex_str_in: "list_ex (\<lambda>k. str_in k s) kws \<longleftrightarrow> has_keyword kws s"
  by (simp add: list_ex_iff has_keyword_def str_in_iff)

lemma replace_from_empty_new: "replace_from tok [] s = remove_token tok s"
  by (induction tok s rule: remove_token.induct) simp_all

lemma str_replace_remove: "tok \<noteq> [] \<Longrightarrow> str_replace s tok [] = remove_token tok s"
  by (simp add: str_replace_def replace_from_empty_new)

lemma str_strip_trim: "str_strip s = trim s"
  by (simp add: str_strip_def trim_def)

lemma dropWhile_idem: "dropWhile P (dropWhile P xs) = dropWhile P xs"
  by (induction xs) simp_all

lemma char_eq_char_of: "c = char_of n \<longleftrightarrow> take_bit 8 n = (of_char c :: nat)"
  by (metis char_of_eq_iff)

lemma dropWhile_rev_dropWhile:
  "dropWhile P (rev (dropWhile P (rev (dropWhile P xs)))) = rev (dropWhile P (rev (dropWhile P xs)))"
proof -
  let ?a = "dropWhile P xs"
  let ?b = "dropWhile P (rev ?a)"
  show "dropWhile P (rev ?b) = rev ?b"
  proof (cases "?b = []")
    case True
    then show ?thesis by (metis dropWhile.simps(1) rev.simps(1))
  next
    case False
    then have a_ne: "?a \<noteq> []" by (cases ?a) simp_all
    have "last (takeWhile P (rev ?a) @ ?b) = last ?b" using False by (rule last_appendR)
    then have "last (rev ?a) = last ?b" by (simp only: takeWhile_dropWhile_id)
    then have "last ?b = hd ?a" using a_ne by (simp add: last_rev)
    then have "hd (rev ?b) = hd ?a" using False by (simp add: hd_rev)
    moreover have "\<not> P (hd ?a)" using a_ne by (rule hd_dropWhile)
    ultimately have "\<not> P (hd (rev ?b))" by simp
    with False show ?thesis by (cases "rev ?b") simp_all
  qed
qed

lemma trim_idem: "trim (trim s) = trim s"
proof -
  have "trim (trim s) = rev (dropWhile isspace (rev (dropWhile isspace (trim s))))"
    by (simp only: trim_def)
  also have "dropWhile isspace (trim s) = trim s"
    unfolding trim_def by (rule dropWhile_rev_dropWhile)
  also have "rev (dropWhile isspace (rev (trim s))) = trim s"
    unfolding trim_def by (simp add: dropWhile_idem)
  finally show ?thesis .
qed

lemma foldl_strip_replace:
  "[] \<notin> set toks \<Longrightarrow>
   foldl (\<lambda>s tok. str_strip (str_replace s tok [])) s toks = remove_fillers toks s"
  by (induction toks arbitrary: s) (auto simp: str_replace_remove str_strip_trim)

lemma remove_fillers_trimmed:
  "toks \<noteq> [] \<Longrightarrow> trim (remove_fillers toks s) = remove_fillers toks s"
proof (induction toks arbitrary: s)
  case Nil
  then show ?case by simp
next
  case (Cons tok toks)
  show ?case
  proof (cases toks)
    case Nil
    then show ?thesis by (simp add: trim_idem)
  next
    case (Cons t ts)
    with Cons.IH show ?thesis by simp
  qed
qed

lemmas str_eval =
  str_lower_def lower_char_def char_of_eq_iff char_eq_char_of isspace_def str_strip_def
  str_replace_def

section \<open>Facts about sequencing\<close>

lemmas io_defs = io_bind_def io_return_def io_raise_def io_try_def

lemma io_bind_Inr:
  "io_bind m f s = (Inr y, s') \<Longrightarrow> \<exists>x s1. m s = (Inr x, s1) \<and> f x s1 = (Inr y, s')"
  by (auto simp: io_bind_def split: prod.splits sum.splits)

lemma preserves_return: "preserves v (io_return x)"
  by (simp add: preserves_def io_return_def)

lemma preserves_raise: "preserves v (io_raise e)"
  by (simp add: preserves_def io_raise_def)

lemma preservesD: "preserves v m \<Longrightarrow> m s = (r, s') \<Longrightarrow> v s' = v s"
  by (auto simp: preserves_def dest: spec[of _ s])

lemma preserves_bind:
  assumes "preserves v m" and "\<And>x. preserves v (f x)"
  shows "preserves v (io_bind m f)"
proof -
  have "v (snd (io_bind m f s)) = v s" for s
  proof (cases "m s")
    case (Pair r s')
    have s': "v s' = v s" using assms(1) Pair by (rule preservesD)
    show ?thesis
    proof (cases r)
      case (Inl e)
      with Pair s' show ?thesis by (simp add: io_bind_def)
    next
      case (Inr x)
      have "v (snd (f x s')) = v s'" using assms(2)[of x] by (simp add: preserves_def)
      with Pair Inr s' show ?thesis by (simp add: io_bind_def)
    qed
  qed
  then show ?thesis by (simp add: preserves_def)
qed

lemma preserves_try:
  assumes "preserves v m" and "\<And>e. preserves v (h e)"
  shows "preserves v (io_try m h)"
proof -
  have "v (snd (io_try m h s)) = v s" for s
  proof (cases "m s")
    case (Pair r s')
    have s': "v s' = v s" using assms(1) Pair by (rule preservesD)
    show ?thesis
    proof (cases r)
      case (Inl e)
      have "v (snd (h e s')) = v s'" using assms(2)[of e] by (simp add: preserves_def)
      with Pair Inl s' show ?thesis by (simp add: io_try_def)
    next
      case (Inr x)
      with Pair s' show ?thesis by (simp add: io_try_def)
    qed
  qed
  then show ?thesis by (simp add: preserves_def)
qed

lemmas preserves_intros = preserves_bind preserves_try preserves_return preserves_raise

section \<open>The handlers write no messages\<close>

lemma message_log_reads:
  assumes "message_log sv log"
  shows "preserves log (get_user_conversations sv u p l)"
    and "preserves log (create_conversation sv u)"
    and "preserves log (get_messages_by_conversation sv c u p l)"
    and "preserves log (get_user_todos sv u f p l)"
    and "preserves log (create_todo sv u d)"
    and "preserves log (toggle_todo_completion sv i u)"
    and "preserves log (delete_todo sv i u)"
    and "preserves log (update_todo sv i u d')"
    and "preserves log (send_message sv h t)"
  using assms by (simp_all add: message_log_def)

lemma message_log_append:
  assumes "message_log sv log" and "create_message sv c r t s = (Inr m, s')"
  shows "log s' = log s @ [(c, \<lparr>role = r, content = t\<rparr>)]"
proof -
  from assms(1) have "\<forall>c r t s m s'. create_message sv c r t s = (Inr m, s')
        \<longrightarrow> log s' = log s @ [(c, \<lparr>role = r, content = t\<rparr>)]"
    by (simp add: message_log_def)
  with assms(2) show ?thesis by simp
qed

lemma extract_todo_id_preserves:
  "message_log sv log \<Longrightarrow> preserves log (extract_todo_id sv user_input user)"
  unfolding extract_todo_id_def
  by (auto intro!: preserves_intros message_log_reads split: list.splits)

lemma handle_add_todo_preserves:
  "message_log sv log \<Longrightarrow> preserves log (handle_add_todo sv user_input user)"
  unfolding handle_add_todo_def dict_get_def Let_def
  by (auto intro!: preserves_intros message_log_reads split: option.splits)

lemma handle_list_todos_preserves:
  "message_log sv log \<Longrightarrow> preserves log (handle_list_todos sv user_input user)"
  unfolding handle_list_todos_def Let_def
  by (auto intro!: preserves_intros message_log_reads)

lemma handle_complete_todo_preserves:
  "message_log sv log \<Longrightarrow> preserves log (handle_complete_todo sv user_input user)"
  unfolding handle_complete_todo_def Let_def
  by (auto intro!: preserves_intros message_log_reads extract_todo_id_preserves)

lemma handle_delete_todo_preserves:
  "message_log sv log \<Longrightarrow> preserves log (handle_delete_todo sv user_input user)"
  unfolding handle_delete_todo_def
  by (auto intro!: preserves_intros message_log_reads extract_todo_id_preserves)

lemma handle_update_todo_preserves:
  "message_log sv log \<Longrightarrow> preserves log (handle_update_todo sv user_input user)"
  unfolding handle_update_todo_def Let_def
  by (auto intro!: preserves_intros message_log_reads split: list.splits)

lemma handle_general_query_preserves:
  "message_log sv log \<Longrightarrow> preserves log (handle_general_query sv user_input conversation user)"
  unfolding handle_general_query_def Let_def
  by (auto intro!: preserves_intros message_log_reads)

lemma classified_handler_preserves:
  "message_log sv log \<Longrightarrow> preserves log (classified_handler sv user_input conversation user)"
  unfolding classified_handler_def dispatch_intent_def
  by (simp add: handle_add_todo_preserves handle_list_todos_preserves handle_complete_todo_preserves
      handle_delete_todo_preserves handle_update_todo_preserves handle_general_query_preserves)

lemma active_conversation_preserves:
  "message_log sv log \<Longrightarrow> preserves log (active_conversation sv user)"
  unfolding active_conversation_def
  by (auto intro!: preserves_intros message_log_reads split: list.splits)

section \<open>The shape of a turn\<close>

lemma process_unfold:
  "process_natural_language_todo_command sv user_input user =
     io_bind (active_conversation sv user) (\<lambda>conversation.
     io_bind (create_message sv conversation ''user'' user_input) (\<lambda>_.
     io_bind (io_try (classified_handler sv user_input conversation user)
                (\<lambda>e. io_return (error_response e))) (\<lambda>response.
     io_bind (create_message sv conversation ''assistant'' response) (\<lambda>_.
     io_return response))))"
  by (rule ext)
     (simp add: process_natural_language_todo_command_def active_conversation_def
       classified_handler_def io_defs Let_def split: prod.splits sum.splits list.splits)

lemma process_chat_unfold:
  "process_chat sv user_input user =
     io_bind (active_conversation sv user) (\<lambda>conversation.
     io_bind (create_message sv conversation ''user'' user_input) (\<lambda>_.
     io_bind (handle_general_query sv user_input conversation user) (\<lambda>response.
     io_bind (create_message sv conversation ''assistant'' response) (\<lambda>_.
     io_return response))))"
  by (rule ext)
     (simp add: process_chat_def active_conversation_def handle_general_query_def
       io_defs Let_def split: prod.splits sum.splits list.splits)

lemma process_run:
  assumes "active_conversation sv user s = (Inr conversation, s0)"
    and "create_message sv conversation ''user'' user_input s0 = (Inr m, s1)"
    and "classified_handler sv user_input conversation user s1 = (Inr response, s2)"
    and "create_message sv conversation ''assistant'' response s2 = (Inr m', s3)"
  shows "process_natural_language_todo_command sv user_input user s = (Inr response, s3)"
  using assms by (simp add: process_unfold io_defs)

lemma process_run_unlogged:
  assumes "active_conversation sv user s = (Inr conversation, s0)"
    and "create_message sv conversation ''user'' user_input s0 = (Inr m, s1)"
    and "classified_handler sv user_input conversation user s1 = (Inl e, s2)"
    and "create_message sv conversation ''assistant'' (error_response e) s2 = (Inl e', s3)"
  shows "process_natural_language_todo_command sv user_input user s = (Inl e', s3)"
  using assms by (simp add: process_unfold io_defs)

lemma turn_log:
  assumes ml: "message_log sv log"
    and handler: "\<And>c. preserves log (handler_of c)"
    and run: "io_bind (active_conversation sv user) (\<lambda>conversation.
              io_bind (create_message sv conversation ''user'' user_input) (\<lambda>_.
              io_bind (handler_of conversation) (\<lambda>response.
              io_bind (create_message sv conversation ''assistant'' response) (\<lambda>_.
              io_return response)))) s = (Inr response, s')"
  shows "\<exists>conversation s0 m s1 s2 m'.
           active_conversation sv user s = (Inr conversation, s0)
         \<and> create_message sv conversation ''user'' user_input s0 = (Inr m, s1)
         \<and> log s1 = log s @ [(conversation, \<lparr>role = ''user'', content = user_input\<rparr>)]
         \<and> handler_of conversation s1 = (Inr response, s2)
         \<and> create_message sv conversation ''assistant'' response s2 = (Inr m', s')
         \<and> log s' = log s @ [(conversation, \<lparr>role = ''user'', content = user_input\<rparr>),
                              (conversation, \<lparr>role = ''assistant'', content = response\<rparr>)]"
proof -
  from io_bind_Inr[OF run] obtain conversation s0 where
    active: "active_conversation sv user s = (Inr conversation, s0)"
    and r1: "io_bind (create_message sv conversation ''user'' user_input) (\<lambda>_.
              io_bind (handler_of conversation) (\<lambda>response.
              io_bind (create_message sv conversation ''assistant'' response) (\<lambda>_.
              io_return response))) s0 = (Inr response, s')"
    by blast
  from io_bind_Inr[OF r1] obtain m s1 where
    user: "create_message sv conversation ''user'' user_input s0 = (Inr m, s1)"
    and r2: "io_bind (handler_of conversation) (\<lambda>response.
              io_bind (create_message sv conversation ''assistant'' response) (\<lambda>_.
              io_return response)) s1 = (Inr response, s')"
    by blast
  from io_bind_Inr[OF r2] obtain answer s2 where
    handled: "handler_of conversation s1 = (Inr answer, s2)"
    and r3: "io_bind (create_message sv conversation ''assistant'' answer) (\<lambda>_.
              io_return answer) s2 = (Inr response, s')"
    by blast
  from io_bind_Inr[OF r3] obtain m' s3 where
    assistant: "create_message sv conversation ''assistant'' answer s2 = (Inr m', s3)"
    and r4: "io_return answer s3 = (Inr response, s')"
    by blast
  from r4 have same: "answer = response" "s3 = s'" by (simp_all add: io_return_def)
  have l0: "log s0 = log s"
    using active_conversation_preserves[OF ml] active by (rule preservesD)
  have l1: "log s1 = log s0 @ [(conversation, \<lparr>role = ''user'', content = user_input\<rparr>)]"
    using ml user by (rule message_log_append)
  have l2: "log s2 = log s1"
    using handler handled by (rule preservesD)
  have l3: "log s3 = log s2 @ [(conversation, \<lparr>role = ''assistant'', content = answer\<rparr>)]"
    using ml assistant by (rule message_log_append)
  from active user handled assistant l0 l1 l2 l3 same show ?thesis by auto
qed

section \<open>Facts about the in-memory store\<close>

lemmas mem_eval =
  mem_services_def mem_get_user_conversations_def mem_create_conversation_def
  mem_create_message_def mem_get_messages_by_conversation_def mem_get_user_todos_def
  mem_create_todo_def mem_toggle_todo_completion_def mem_delete_todo_def mem_update_todo_def
  mem_send_message_def page_of_def empty_world_def names_def toggled_def apply_update_def
  echo_def Let_def

lemma str_nat_digit: "n < 10 \<Longrightarrow> str_nat n = [digit_char n]"
  by (subst str_nat.simps) simp

lemma str_nat_nonempty: "str_nat n \<noteq> []"
  by (subst str_nat.simps) simp

lemmas world_eval = mem_eval todo_world_def milk_def eggs_def str_nat_digit digit_char_def
  char_of_eq_iff char_eq_char_of

lemmas intent_eval = determine_intent_def add_keywords_def list_keywords_def
  complete_keywords_def delete_keywords_def update_keywords_def

lemma mem_message_log: "message_log (mem_services reply) msg_table"
  unfolding message_log_def preserves_def
  by (auto simp: mem_services_def mem_get_user_conversations_def mem_create_conversation_def
      mem_create_message_def mem_get_messages_by_conversation_def mem_get_user_todos_def
      mem_create_todo_def mem_toggle_todo_completion_def mem_delete_todo_def mem_update_todo_def
      mem_send_message_def Let_def split: option.splits prod.splits)

lemma message_log_toggle_update:
  "message_log sv log \<Longrightarrow> (\<And>i u. preserves log (f i u))
    \<Longrightarrow> message_log (sv\<lparr>toggle_todo_completion := f\<rparr>) log"
  by (simp add: message_log_def)

lemma broken_toggle_message_log: "message_log broken_toggle msg_table"
  unfolding broken_toggle_def
  by (intro message_log_toggle_update mem_message_log preserves_raise)

lemma toggled_toggled: "toggled sid user (toggled sid user x) = x"
  by (cases x) (simp add: toggled_def names_def)

lemma first_of_user:
  "map snd (filter (\<lambda>(owner, t). owner = user) tbl) = t # ts
   \<Longrightarrow> find (names (str_nat (todo_id t)) user) tbl = Some (user, t)"
proof (induction tbl)
  case Nil
  then show ?case by simp
next
  case (Cons x tbl)
  obtain owner t' where x: "x = (owner, t')" by (cases x)
  show ?case
  proof (cases "owner = user")
    case True
    with Cons.prems x have "t' = t" by simp
    with True x show ?thesis by (simp add: names_def)
  next
    case False
    with Cons.prems x have "map snd (filter (\<lambda>(owner, t). owner = user) tbl) = t # ts" by simp
    then have "find (names (str_nat (todo_id t)) user) tbl = Some (user, t)" by (rule Cons.IH)
    with False x show ?thesis by (simp add: names_def)
  qed
qed

lemma filter_owner_toggled:
  "filter (\<lambda>(owner, t). owner = user) (map (toggled sid u) tbl)
     = map (toggled sid u) (filter (\<lambda>(owner, t). owner = user) tbl)"
  by (induction tbl) (auto simp: toggled_def split: prod.splits)

lemma mem_lookup_most_recent:
  assumes "get_user_todos (mem_services reply) user None 1 1 w = (Inr (t # rest, cnt), w')"
  shows "\<exists>ts. map snd (filter (\<lambda>(owner, t). owner = user) (todo_table w)) = t # ts
              \<and> cnt = Suc (length ts) \<and> rest = [] \<and> w' = w"
proof -
  let ?mine = "map snd (filter (\<lambda>(owner, t). owner = user) (todo_table w))"
  from assms have page: "take 1 ?mine = t # rest" and cnt: "cnt = length ?mine" and w: "w' = w"
    by (auto simp: mem_services_def mem_get_user_todos_def page_of_def Let_def)
  from page obtain ts where mine: "?mine = t # ts" by (cases ?mine) simp_all
  from mine have "length ?mine = Suc (length ts)" by simp
  with mine page cnt w show ?thesis by simp
qed

lemma mem_lookup_of_mine:
  "map snd (filter (\<lambda>(owner, t). owner = user) (todo_table w)) = t # ts
   \<Longrightarrow> get_user_todos (mem_services reply) user None 1 1 w = (Inr ([t], Suc (length ts)), w)"
proof -
  let ?mine = "map snd (filter (\<lambda>(owner, t). owner = user) (todo_table w))"
  assume mine: "?mine = t # ts"
  then have "length ?mine = Suc (length ts)" by simp
  then have "length (filter (\<lambda>(owner, t). owner = user) (todo_table w)) = Suc (length ts)"
    by simp
  with mine show ?thesis
    by (simp add: mem_services_def mem_get_user_todos_def page_of_def Let_def)
qed

lemma mem_complete_most_recent:
  assumes "map snd (filter (\<lambda>(owner, t). owner = user) (todo_table w)) = t # ts"
  shows "handle_complete_todo (mem_services reply) user_input user w
     = (Inr (''I've marked '' @ quoted (title t) @ '' as ''
             @ (if is_completed t then ''marked as incomplete'' else ''completed'') @ ''.''),
        w\<lparr>todo_table := map (toggled (str_nat (todo_id t)) user) (todo_table w)\<rparr>)"
proof -
  have lookup: "get_user_todos (mem_services reply) user None 1 1 w = (Inr ([t], Suc (length ts)), w)"
    using assms by (rule mem_lookup_of_mine)
  have found: "find (names (str_nat (todo_id t)) user) (todo_table w) = Some (user, t)"
    using assms by (rule first_of_user)
  have toggle: "toggle_todo_completion (mem_services reply) (str_nat (todo_id t)) user w
      = (Inr (t\<lparr>is_completed := \<not> is_completed t\<rparr>),
         w\<lparr>todo_table := map (toggled (str_nat (todo_id t)) user) (todo_table w)\<rparr>)"
    using found by (simp add: mem_services_def mem_toggle_todo_completion_def)
  have sid: "str_id (mem_services reply) (todo_id t) = str_nat (todo_id t)"
    by (simp add: mem_services_def)
  show ?thesis
    using lookup toggle str_nat_nonempty[of "todo_id t"]
    by (simp add: handle_complete_todo_def extract_todo_id_def io_defs sid)
qed

section \<open>C1: the classifier\<close>

text \<open>
  C1. For every input the classifier returns one of add, list, complete, delete, update and
  other; it is the first-match search of the lowercased input through the five keyword sets
  in the order Add, List, Complete, Delete, Update, with other when no keyword of any set
  occurs. So a set wins exactly when one of its keywords occurs and none of an earlier set
  does, and an input with an Add keyword and a Delete keyword is classified as add.
\<close>

theorem determine_intent_first_match:
  "determine_intent text = classify text
   \<and> determine_intent text \<in> {''add'', ''list'', ''complete'', ''delete'', ''update'', ''other''}
   \<and> (\<forall>i < length priority_order.
         has_keyword (snd (priority_order ! i)) (str_lower text)
         \<and> (\<forall>j < i. \<not> has_keyword (snd (priority_order ! j)) (str_lower text))
         \<longrightarrow> determine_intent text = fst (priority_order ! i))
   \<and> ((\<forall>i < length priority_order. \<not> has_keyword (snd (priority_order ! i)) (str_lower text))
         \<longrightarrow> determine_intent text = ''other'')
   \<and> (has_keyword add_keywords (str_lower text) \<and> has_keyword delete_keywords (str_lower text)
         \<longrightarrow> determine_intent text = ''add'')"
proof -
  have eq: "determine_intent text = classify text"
    by (simp add: determine_intent_def classify_def priority_order_def list_ex_str_in Let_def)
  have range: "determine_intent text
      \<in> {''add'', ''list'', ''complete'', ''delete'', ''update'', ''other''}"
    by (simp add: determine_intent_def Let_def)
  have first: "has_keyword (snd (table ! i)) s \<Longrightarrow>
      (\<forall>j < i. \<not> has_keyword (snd (table ! j)) s) \<Longrightarrow> i < length table \<Longrightarrow>
      first_match table s = fst (table ! i)" for table i s
  proof (induction table s arbitrary: i rule: first_match.induct)
    case (1 s)
    then show ?case by simp
  next
    case (2 name kws rest s)
    show ?case
    proof (cases i)
      case 0
      with "2.prems" show ?thesis by simp
    next
      case (Suc k)
      with "2.prems" have no: "\<not> has_keyword kws s" by auto
      have "first_match rest s = fst (rest ! k)"
      proof (rule "2.IH"[OF no])
        show "has_keyword (snd (rest ! k)) s" using "2.prems" Suc by simp
        show "\<forall>j<k. \<not> has_keyword (snd (rest ! j)) s" using "2.prems" Suc by auto
        show "k < length rest" using "2.prems" Suc by simp
      qed
      with no Suc show ?thesis by simp
    qed
  qed
  have none: "(\<forall>i < length table. \<not> has_keyword (snd (table ! i)) s) \<Longrightarrow>
      first_match table s = ''other''" for table s
  proof (induction table s rule: first_match.induct)
    case (1 s)
    then show ?case by simp
  next
    case (2 name kws rest s)
    from "2.prems" have "\<not> has_keyword kws s" by auto
    moreover from "2.prems" have "\<forall>i < length rest. \<not> has_keyword (snd (rest ! i)) s" by auto
    ultimately show ?case using "2.IH" by simp
  qed
  have add: "has_keyword add_keywords (str_lower text) \<Longrightarrow> determine_intent text = ''add''"
    by (simp add: determine_intent_def list_ex_str_in Let_def)
  show ?thesis
    using eq range first[of priority_order _ "str_lower text"] none[of priority_order "str_lower text"] add
    by (simp add: classify_def)
qed

theorem determine_intent_first_match_witness:
  "has_keyword add_keywords (str_lower ''Please ADD milk and delete eggs'')
   \<and> has_keyword delete_keywords (str_lower ''Please ADD milk and delete eggs'')
   \<and> determine_intent ''Please ADD milk and delete eggs'' = ''add''
   \<and> classify ''Please ADD milk and delete eggs'' = ''add''"
proof -
  have a: "has_keyword add_keywords (str_lower ''Please ADD milk and delete eggs'')"
    unfolding list_ex_str_in[symmetric] by (simp add: add_keywords_def str_eval)
  have d: "has_keyword delete_keywords (str_lower ''Please ADD milk and delete eggs'')"
    unfolding list_ex_str_in[symmetric] by (simp add: delete_keywords_def str_eval)
  note t = determine_intent_first_match[of "''Please ADD milk and delete eggs''"]
  from t a d have r: "determine_intent ''Please ADD milk and delete eggs'' = ''add''" by blast
  from t have "determine_intent ''Please ADD milk and delete eggs''
      = classify ''Please ADD milk and delete eggs''" by blast
  with r have "classify ''Please ADD milk and delete eggs'' = ''add''" by simp
  with a d r show ?thesis by simp
qed

section \<open>C2: the title extractor\<close>

text \<open>
  C2. For every input the title computed by the extractor is the reference definition: the
  lowercased text with the filler tokens add, create, new, remember, remind, me, to removed in
  that order wherever they occur, trimmed after each removal. The title of
  "remind me to buy milk" is "buy milk", and "add tomorrow's meeting" loses the "to" of
  "tomorrow's" (and the "me" of "meeting").
\<close>

theorem extract_todo_info_title:
  "extract_todo_info text ''title'' = Some (extract_title text)
   \<and> extract_todo_info ''remind me to buy milk'' ''title'' = Some ''buy milk''
   \<and> extract_todo_info ''add tomorrow's meeting'' ''title'' = Some ''morrow's eting''"
proof -
  have toks: "[] \<notin> set filler_tokens" "filler_tokens \<noteq> []"
    by (simp_all add: filler_tokens_def)
  have "extract_todo_info text ''title''
      = Some (trim (remove_fillers filler_tokens (str_lower text)))"
    using foldl_strip_replace[OF toks(1), of "str_lower text"]
    by (simp add: extract_todo_info_def Let_def filler_tokens_def str_strip_trim)
  then have general: "extract_todo_info text ''title'' = Some (extract_title text)"
    by (simp add: extract_title_def remove_fillers_trimmed[OF toks(2)])
  have milk: "extract_todo_info ''remind me to buy milk'' ''title'' = Some ''buy milk''"
    by (simp add: extract_todo_info_def str_eval)
  have meeting: "extract_todo_info ''add tomorrow's meeting'' ''title'' = Some ''morrow's eting''"
    by (simp add: extract_todo_info_def str_eval)
  from general milk meeting show ?thesis by simp
qed

section \<open>C3: an exception of a handler becomes the response\<close>

text \<open>
  C3. In every call in which the assistant message is logged, an exception \<open>e\<close> raised by
  the handler invoked for the input (an instance of \<open>Exception\<close>, which is what the
  \<open>except\<close> clause catches) makes the dispatcher return "I'm sorry, I encountered an error
  processing your request: " followed by \<open>str(e)\<close>, and that string is logged as the
  assistant message of the turn. The message of the user, logged before the handler ran, stays
  in the log: the log after the call is the log before it with the user message and the error
  message appended. The log is any reading of the state under which a successful
  \<open>create_message\<close> appends and no other service writes messages. The condition on the
  assistant message is needed: that message is logged after the \<open>try\<close> block, so when
  logging it raises as well, the call raises and returns no string (shown below).
\<close>

theorem handler_exception_becomes_response:
  assumes "message_log sv log"
    and "active_conversation sv user s = (Inr conversation, s0)"
    and "create_message sv conversation ''user'' user_input s0 = (Inr m, s1)"
    and "classified_handler sv user_input conversation user s1 = (Inl e, s2)"
    and "create_message sv conversation ''assistant'' (error_response e) s2 = (Inr m', s3)"
  shows "process_natural_language_todo_command sv user_input user s
           = (Inr (''I'm sorry, I encountered an error processing your request: '' @ detail e), s3)
       \<and> log s3 = log s @
           [(conversation, \<lparr>role = ''user'', content = user_input\<rparr>),
            (conversation, \<lparr>role = ''assistant'',
               content = ''I'm sorry, I encountered an error processing your request: '' @ detail e\<rparr>)]"
proof -
  have run: "process_natural_language_todo_command sv user_input user s = (Inr (error_response e), s3)"
    using assms(2-5) by (simp add: process_unfold io_defs)
  have l0: "log s0 = log s"
    using active_conversation_preserves[OF assms(1)] assms(2) by (rule preservesD)
  have l1: "log s1 = log s0 @ [(conversation, \<lparr>role = ''user'', content = user_input\<rparr>)]"
    using assms(1,3) by (rule message_log_append)
  have l2: "log s2 = log s1"
    using classified_handler_preserves[OF assms(1)] assms(4) by (rule preservesD)
  have l3: "log s3 = log s2 @ [(conversation, \<lparr>role = ''assistant'', content = error_response e\<rparr>)]"
    using assms(1,5) by (rule message_log_append)
  from run l0 l1 l2 l3 show ?thesis by (simp add: error_response_def)
qed

theorem handler_exception_becomes_response_witness:
  "message_log broken_toggle msg_table
   \<and> classified_handler broken_toggle ''mark it done'' 3 1
        (todo_world\<lparr>conv_table := [(3, 1)], next_id := 4,
            msg_table := [(3, \<lparr>role = ''user'', content = ''mark it done''\<rparr>)]\<rparr>)
      = (Inl connection_lost,
         todo_world\<lparr>conv_table := [(3, 1)], next_id := 4,
            msg_table := [(3, \<lparr>role = ''user'', content = ''mark it done''\<rparr>)]\<rparr>)
   \<and> process_natural_language_todo_command broken_toggle ''mark it done'' 1 todo_world
      = (Inr ''I'm sorry, I encountered an error processing your request: connection lost'',
         todo_world\<lparr>conv_table := [(3, 1)], next_id := 4,
            msg_table := [(3, \<lparr>role = ''user'', content = ''mark it done''\<rparr>),
              (3, \<lparr>role = ''assistant'',
                 content = ''I'm sorry, I encountered an error processing your request: connection lost''\<rparr>)]\<rparr>)"
proof -
  let ?wa = "todo_world\<lparr>conv_table := [(3, 1)], next_id := 4\<rparr>"
  let ?u = "\<lparr>role = ''user'', content = ''mark it done''\<rparr>"
  let ?wb = "todo_world\<lparr>conv_table := [(3, 1)], next_id := 4, msg_table := [(3, ?u)]\<rparr>"
  let ?text = "''I'm sorry, I encountered an error processing your request: connection lost''"
  let ?a = "\<lparr>role = ''assistant'', content = ?text\<rparr>"
  let ?wc = "todo_world\<lparr>conv_table := [(3, 1)], next_id := 4, msg_table := [(3, ?u), (3, ?a)]\<rparr>"
  have h1: "active_conversation broken_toggle 1 todo_world = (Inr 3, ?wa)"
    by (simp add: active_conversation_def broken_toggle_def io_defs world_eval)
  have h2: "create_message broken_toggle 3 ''user'' ''mark it done'' ?wa = (Inr ?u, ?wb)"
    by (simp add: broken_toggle_def world_eval)
  have i: "determine_intent (str_lower ''mark it done'') = ''complete''"
    by (simp add: intent_eval str_eval)
  have h3: "classified_handler broken_toggle ''mark it done'' 3 1 ?wb = (Inl connection_lost, ?wb)"
    by (simp add: classified_handler_def i dispatch_intent_def handle_complete_todo_def
        extract_todo_id_def broken_toggle_def io_defs world_eval)
  have h4: "create_message broken_toggle 3 ''assistant'' (error_response connection_lost) ?wb
      = (Inr ?a, ?wc)"
    by (simp add: broken_toggle_def world_eval error_response_def connection_lost_def)
  from handler_exception_becomes_response[OF broken_toggle_message_log h1 h2 h3 h4]
  have "process_natural_language_todo_command broken_toggle ''mark it done'' 1 todo_world
      = (Inr ?text, ?wc)"
    by (simp add: connection_lost_def)
  with broken_toggle_message_log h3 show ?thesis by simp
qed

text \<open>
  Without that condition the statement fails. In a store where the toggle fails and logging
  a message of role assistant fails, "mark it done" makes the Complete handler raise, and the
  call then raises the exception of the logging: it returns no apologetic string, and the log
  holds the user message alone.
\<close>

theorem handler_exception_unlogged_counterexample:
  "classified_handler broken_toggle_and_log ''mark it done'' 3 1
        (todo_world\<lparr>conv_table := [(3, 1)], next_id := 4,
            msg_table := [(3, \<lparr>role = ''user'', content = ''mark it done''\<rparr>)]\<rparr>)
      = (Inl connection_lost,
         todo_world\<lparr>conv_table := [(3, 1)], next_id := 4,
            msg_table := [(3, \<lparr>role = ''user'', content = ''mark it done''\<rparr>)]\<rparr>)
   \<and> process_natural_language_todo_command broken_toggle_and_log ''mark it done'' 1 todo_world
      = (Inl connection_lost,
         todo_world\<lparr>conv_table := [(3, 1)], next_id := 4,
            msg_table := [(3, \<lparr>role = ''user'', content = ''mark it done''\<rparr>)]\<rparr>)
   \<and> fst (process_natural_language_todo_command broken_toggle_and_log ''mark it done'' 1 todo_world)
      \<noteq> Inr (''I'm sorry, I encountered an error processing your request: ''
               @ detail connection_lost)"
proof -
  let ?wa = "todo_world\<lparr>conv_table := [(3, 1)], next_id := 4\<rparr>"
  let ?u = "\<lparr>role = ''user'', content = ''mark it done''\<rparr>"
  let ?wb = "todo_world\<lparr>conv_table := [(3, 1)], next_id := 4, msg_table := [(3, ?u)]\<rparr>"
  have h1: "active_conversation broken_toggle_and_log 1 todo_world = (Inr 3, ?wa)"
    by (simp add: active_conversation_def broken_toggle_and_log_def io_defs world_eval)
  have h2: "create_message broken_toggle_and_log 3 ''user'' ''mark it done'' ?wa = (Inr ?u, ?wb)"
    by (simp add: broken_toggle_and_log_def world_eval)
  have i: "determine_intent (str_lower ''mark it done'') = ''complete''"
    by (simp add: intent_eval str_eval)
  have h3: "classified_handler broken_toggle_and_log ''mark it done'' 3 1 ?wb
      = (Inl connection_lost, ?wb)"
    by (simp add: classified_handler_def i dispatch_intent_def handle_complete_todo_def
        extract_todo_id_def broken_toggle_and_log_def io_defs world_eval)
  have h4: "create_message broken_toggle_and_log 3 ''assistant'' (error_response connection_lost) ?wb
      = (Inl connection_lost, ?wb)"
    by (simp add: broken_toggle_and_log_def io_defs)
  have run: "process_natural_language_todo_command broken_toggle_and_log ''mark it done'' 1 todo_world
      = (Inl connection_lost, ?wb)"
    by (rule process_run_unlogged[OF h1 h2 h3 h4])
  from h3 run show ?thesis by simp
qed

section \<open>C4: a turn logs the input and then the response\<close>

text \<open>
  C4. Every call of \<open>process_natural_language_todo_command\<close>, and of
  \<open>process_chat\<close>, that returns a response has logged the input as a message of role
  user in the active conversation of the user (the most recent one, created when the user has
  none) before the handler ran, and the returned response as a message of role assistant in
  the same conversation after it: the log after the call is the log before it with exactly
  these two messages appended, in this order. The log is any reading of the state under which
  a successful \<open>create_message\<close> appends and no other service writes messages.
\<close>

theorem turn_appends_user_then_assistant:
  assumes "message_log sv log"
  shows "(process_natural_language_todo_command sv user_input user s = (Inr response, s')
          \<longrightarrow> (\<exists>conversation s0 m s1 s2 m'.
                 active_conversation sv user s = (Inr conversation, s0)
               \<and> create_message sv conversation ''user'' user_input s0 = (Inr m, s1)
               \<and> log s1 = log s @ [(conversation, \<lparr>role = ''user'', content = user_input\<rparr>)]
               \<and> io_try (classified_handler sv user_input conversation user)
                    (\<lambda>e. io_return (error_response e)) s1 = (Inr response, s2)
               \<and> create_message sv conversation ''assistant'' response s2 = (Inr m', s')
               \<and> log s' = log s @ [(conversation, \<lparr>role = ''user'', content = user_input\<rparr>),
                                    (conversation, \<lparr>role = ''assistant'', content = response\<rparr>)]))
       \<and> (process_chat sv user_input user s = (Inr response, s')
          \<longrightarrow> (\<exists>conversation s0 m s1 s2 m'.
                 active_conversation sv user s = (Inr conversation, s0)
               \<and> create_message sv conversation ''user'' user_input s0 = (Inr m, s1)
               \<and> log s1 = log s @ [(conversation, \<lparr>role = ''user'', content = user_input\<rparr>)]
               \<and> handle_general_query sv user_input conversation user s1 = (Inr response, s2)
               \<and> create_message sv conversation ''assistant'' response s2 = (Inr m', s')
               \<and> log s' = log s @ [(conversation, \<lparr>role = ''user'', content = user_input\<rparr>),
                                    (conversation, \<lparr>role = ''assistant'', content = response\<rparr>)]))"
proof (intro conjI impI)
  assume run: "process_natural_language_todo_command sv user_input user s = (Inr response, s')"
  have guarded: "preserves log (io_try (classified_handler sv user_input c user)
      (\<lambda>e. io_return (error_response e)))" for c
    by (intro preserves_try classified_handler_preserves[OF assms] preserves_return)
  show "\<exists>conversation s0 m s1 s2 m'.
           active_conversation sv user s = (Inr conversation, s0)
         \<and> create_message sv conversation ''user'' user_input s0 = (Inr m, s1)
         \<and> log s1 = log s @ [(conversation, \<lparr>role = ''user'', content = user_input\<rparr>)]
         \<and> io_try (classified_handler sv user_input conversation user)
              (\<lambda>e. io_return (error_response e)) s1 = (Inr response, s2)
         \<and> create_message sv conversation ''assistant'' response s2 = (Inr m', s')
         \<and> log s' = log s @ [(conversation, \<lparr>role = ''user'', content = user_input\<rparr>),
                              (conversation, \<lparr>role = ''assistant'', content = response\<rparr>)]"
    by (rule turn_log[OF assms guarded run[unfolded process_unfold]])
next
  assume run: "process_chat sv user_input user s = (Inr response, s')"
  have query: "preserves log (handle_general_query sv user_input c user)" for c
    by (rule handle_general_query_preserves[OF assms])
  show "\<exists>conversation s0 m s1 s2 m'.
           active_conversation sv user s = (Inr conversation, s0)
         \<and> create_message sv conversation ''user'' user_input s0 = (Inr m, s1)
         \<and> log s1 = log s @ [(conversation, \<lparr>role = ''user'', content = user_input\<rparr>)]
         \<and> handle_general_query sv user_input conversation user s1 = (Inr response, s2)
         \<and> create_message sv conversation ''assistant'' response s2 = (Inr m', s')
         \<and> log s' = log s @ [(conversation, \<lparr>role = ''user'', content = user_input\<rparr>),
                              (conversation, \<lparr>role = ''assistant'', content = response\<rparr>)]"
    by (rule turn_log[OF assms query run[unfolded process_chat_unfold]])
qed

theorem turn_appends_user_then_assistant_witness:
  "message_log (mem_services echo) msg_table
   \<and> process_natural_language_todo_command (mem_services echo) ''add buy milk'' 1 empty_world
      = (Inr ''I've added 'buy milk' to your todo list.'',
         empty_world\<lparr>conv_table := [(1, 1)], next_id := 3,
           msg_table := [(1, \<lparr>role = ''user'', content = ''add buy milk''\<rparr>),
                       (1, \<lparr>role = ''assistant'', content = ''I've added 'buy milk' to your todo list.''\<rparr>)],
           todo_table := [(1, \<lparr>todo_id = 2, title = ''buy milk'', description = '''', is_completed = False\<rparr>)]\<rparr>)
   \<and> (\<exists>w. process_chat (mem_services echo) ''hello'' 1 empty_world = (Inr ''Hello! How can I help?'', w)
          \<and> msg_table w = [(1, \<lparr>role = ''user'', content = ''hello''\<rparr>),
                           (1, \<lparr>role = ''assistant'', content = ''Hello! How can I help?''\<rparr>)])"
proof -
  let ?wa = "empty_world\<lparr>conv_table := [(1, 1)], next_id := 2\<rparr>"
  let ?u = "\<lparr>role = ''user'', content = ''add buy milk''\<rparr>"
  let ?a = "\<lparr>role = ''assistant'', content = ''I've added 'buy milk' to your todo list.''\<rparr>"
  let ?wb = "empty_world\<lparr>conv_table := [(1, 1)], next_id := 2, msg_table := [(1, ?u)]\<rparr>"
  let ?wc = "empty_world\<lparr>conv_table := [(1, 1)], next_id := 3, msg_table := [(1, ?u)],
      todo_table := [(1, \<lparr>todo_id = 2, title = ''buy milk'', description = '''', is_completed = False\<rparr>)]\<rparr>"
  let ?wd = "empty_world\<lparr>conv_table := [(1, 1)], next_id := 3, msg_table := [(1, ?u), (1, ?a)],
      todo_table := [(1, \<lparr>todo_id = 2, title = ''buy milk'', description = '''', is_completed = False\<rparr>)]\<rparr>"
  note t = turn_appends_user_then_assistant[OF mem_message_log, of echo _ 1 empty_world]
  have active: "active_conversation (mem_services echo) 1 empty_world = (Inr 1, ?wa)"
    by (simp add: active_conversation_def io_defs mem_eval)
  have i: "determine_intent (str_lower ''add buy milk'') = ''add''"
    by (simp add: intent_eval str_eval)
  have user: "create_message (mem_services echo) 1 ''user'' ''add buy milk'' ?wa = (Inr ?u, ?wb)"
    by (simp add: mem_eval)
  have info: "extract_todo_info ''add buy milk'' = [''title'' \<mapsto> ''buy milk'', ''description'' \<mapsto> '''']"
    by (simp add: extract_todo_info_def str_eval)
  have handled: "classified_handler (mem_services echo) ''add buy milk'' 1 1 ?wb
      = (Inr ''I've added 'buy milk' to your todo list.'', ?wc)"
    by (simp add: classified_handler_def i dispatch_intent_def handle_add_todo_def info
        dict_get_def quoted_def io_defs mem_eval)
  have logged: "create_message (mem_services echo) 1 ''assistant''
      ''I've added 'buy milk' to your todo list.'' ?wc = (Inr ?a, ?wd)"
    by (simp add: mem_eval)
  have run: "process_natural_language_todo_command (mem_services echo) ''add buy milk'' 1 empty_world
      = (Inr ''I've added 'buy milk' to your todo list.'', ?wd)"
    by (rule process_run[OF active user handled logged])
  from t[THEN conjunct1, rule_format, OF run] active
  have first_log: "msg_table ?wd = msg_table empty_world @ [(1, ?u), (1, ?a)]"
    by auto
  have chat: "\<exists>w. process_chat (mem_services echo) ''hello'' 1 empty_world
      = (Inr ''Hello! How can I help?'', w)"
    by (simp add: process_chat_def io_defs mem_eval)
  then obtain w where w: "process_chat (mem_services echo) ''hello'' 1 empty_world
      = (Inr ''Hello! How can I help?'', w)" ..
  from t[THEN conjunct2, rule_format, OF w] active
  have "msg_table w = msg_table empty_world @
      [(1, \<lparr>role = ''user'', content = ''hello''\<rparr>),
       (1, \<lparr>role = ''assistant'', content = ''Hello! How can I help?''\<rparr>)]"
    by auto
  then have "msg_table w = [(1, \<lparr>role = ''user'', content = ''hello''\<rparr>),
       (1, \<lparr>role = ''assistant'', content = ''Hello! How can I help?''\<rparr>)]"
    by (simp add: empty_world_def)
  with w have "\<exists>w. process_chat (mem_services echo) ''hello'' 1 empty_world = (Inr ''Hello! How can I help?'', w)
          \<and> msg_table w = [(1, \<lparr>role = ''user'', content = ''hello''\<rparr>),
                           (1, \<lparr>role = ''assistant'', content = ''Hello! How can I help?''\<rparr>)]"
    by blast
  with mem_message_log run first_log show ?thesis by blast
qed

section \<open>C5: the history of a general query\<close>

text \<open>
  C5. The general-query handler gives the model the role-tagged form of every message that
  \<open>get_messages_by_conversation\<close> returns for page 1 with limit 10, in the order
  returned, and the input as the live turn; the entry it appends for the input is the one
  entry it drops again (\<open>formatted_history[:-1]\<close>, commented "Exclude the current
  input"). The dispatcher has logged the input before the handler fetches the page, so a
  fetched page that holds the just-logged message puts the input into the history as well:
  in a fresh store the history of the first input is that input itself. The claim that the
  just-logged input is excluded from the history does not hold of the code.
\<close>

theorem general_query_sends_fetched_page:
  assumes "get_messages_by_conversation sv conversation user 1 10 s = (Inr (recent, cnt), s1)"
  shows "handle_general_query sv user_input conversation user s
           = io_try (send_message sv (history_of recent) user_input)
               (\<lambda>e. io_return (error_response e)) s1"
  using assms by (simp add: handle_general_query_def history_of_def io_bind_def Let_def)

theorem general_query_sends_fetched_page_witness:
  "get_messages_by_conversation (mem_services echo) 1 1 1 10
       (empty_world\<lparr>conv_table := [(1, 1)], next_id := 2,
           msg_table := [(1, \<lparr>role = ''user'', content = ''hello''\<rparr>)]\<rparr>)
     = (Inr ([\<lparr>role = ''user'', content = ''hello''\<rparr>], 1),
        empty_world\<lparr>conv_table := [(1, 1)], next_id := 2,
           msg_table := [(1, \<lparr>role = ''user'', content = ''hello''\<rparr>)]\<rparr>)
   \<and> determine_intent (str_lower ''hello'') = ''other''
   \<and> process_natural_language_todo_command (mem_services echo) ''hello'' 1 empty_world
     = (Inr ''Hello! How can I help?'',
        empty_world\<lparr>conv_table := [(1, 1)], next_id := 2,
           msg_table := [(1, \<lparr>role = ''user'', content = ''hello''\<rparr>),
                         (1, \<lparr>role = ''assistant'', content = ''Hello! How can I help?''\<rparr>)],
           ai_log := [([\<lparr>entry_role = ''user'', parts = [''hello'']\<rparr>], ''hello'')]\<rparr>)"
proof -
  let ?wa = "empty_world\<lparr>conv_table := [(1, 1)], next_id := 2\<rparr>"
  let ?u = "\<lparr>role = ''user'', content = ''hello''\<rparr>"
  let ?a = "\<lparr>role = ''assistant'', content = ''Hello! How can I help?''\<rparr>"
  let ?wb = "empty_world\<lparr>conv_table := [(1, 1)], next_id := 2, msg_table := [(1, ?u)]\<rparr>"
  let ?wc = "empty_world\<lparr>conv_table := [(1, 1)], next_id := 2, msg_table := [(1, ?u)],
      ai_log := [([\<lparr>entry_role = ''user'', parts = [''hello'']\<rparr>], ''hello'')]\<rparr>"
  let ?wd = "empty_world\<lparr>conv_table := [(1, 1)], next_id := 2, msg_table := [(1, ?u), (1, ?a)],
      ai_log := [([\<lparr>entry_role = ''user'', parts = [''hello'']\<rparr>], ''hello'')]\<rparr>"
  have active: "active_conversation (mem_services echo) 1 empty_world = (Inr 1, ?wa)"
    by (simp add: active_conversation_def io_defs mem_eval)
  have user: "create_message (mem_services echo) 1 ''user'' ''hello'' ?wa = (Inr ?u, ?wb)"
    by (simp add: mem_eval)
  have page: "get_messages_by_conversation (mem_services echo) 1 1 1 10 ?wb = (Inr ([?u], 1), ?wb)"
    by (simp add: mem_eval)
  have i: "determine_intent (str_lower ''hello'') = ''other''"
    by (simp add: intent_eval str_eval)
  have "handle_general_query (mem_services echo) ''hello'' 1 1 ?wb
      = io_try (send_message (mem_services echo) (history_of [?u]) ''hello'')
          (\<lambda>e. io_return (error_response e)) ?wb"
    using page by (rule general_query_sends_fetched_page)
  also have "\<dots> = (Inr ''Hello! How can I help?'', ?wc)"
    by (simp add: history_of_def io_defs mem_eval)
  finally have "classified_handler (mem_services echo) ''hello'' 1 1 ?wb
      = (Inr ''Hello! How can I help?'', ?wc)"
    by (simp add: classified_handler_def i dispatch_intent_def)
  moreover have "create_message (mem_services echo) 1 ''assistant'' ''Hello! How can I help?'' ?wc
      = (Inr ?a, ?wd)"
    by (simp add: mem_eval)
  ultimately have "process_natural_language_todo_command (mem_services echo) ''hello'' 1 empty_world
      = (Inr ''Hello! How can I help?'', ?wd)"
    by (rule process_run[OF active user])
  with page i show ?thesis by simp
qed

section \<open>C6: listing\<close>

text \<open>
  C6. The List handler chooses the filter from the lowercased input (not completed when it
  contains pending or incomplete, else completed when it contains completed or done, else
  none) and asks the store for page 1 of at most 20 todos under that filter. An empty result
  is answered by "You don't have any pending todos right now.", by the completed variant or
  by the unfiltered variant, according to the filter; a result that is not empty by a heading
  line and one line "- title" for each todo, in the order returned, separated by newlines,
  which shows nothing of a todo but its title.
\<close>

theorem list_todos_response:
  "(get_user_todos sv user (status_filter_of user_input) 1 20 s = (Inr ([], cnt), s1)
      \<longrightarrow> handle_list_todos sv user_input user s
           = (Inr (case status_filter_of user_input of
                     Some False \<Rightarrow> ''You don't have any pending todos right now.''
                   | Some True \<Rightarrow> ''You don't have any completed todos right now.''
                   | None \<Rightarrow> ''You don't have any todos right now.''), s1))
   \<and> (get_user_todos sv user (status_filter_of user_input) 1 20 s = (Inr (t # rest, cnt), s1)
      \<longrightarrow> handle_list_todos sv user_input user s
           = (Inr (list_heading (status_filter_of user_input) @ [CHR 0x0A]
                   @ bulleted (map title (t # rest))), s1))
   \<and> (get_user_todos sv user (status_filter_of user_input) 1 20 s = (Inl e, s1)
      \<longrightarrow> handle_list_todos sv user_input user s = (Inl e, s1))"
proof -
  have join: "str_join newline (map (\<lambda>todo. ''- '' @ title todo) todos) = bulleted (map title todos)"
    for todos :: "'a todo list"
    by (induction todos rule: induct_list012) (simp_all add: newline_def)
  have join2: "str_join [CHR 0x0A] (map (\<lambda>todo. CHR ''-'' # CHR '' '' # title todo) todos)
      = bulleted (map title todos)" for todos :: "'a todo list"
    using join[of todos] by (simp add: newline_def)
  have filt: "(if str_in ''pending'' (str_lower user_input) \<or> str_in ''incomplete'' (str_lower user_input)
             then Some False
             else if str_in ''completed'' (str_lower user_input) \<or> str_in ''done'' (str_lower user_input)
             then Some True
             else None) = status_filter_of user_input"
    by (simp add: status_filter_of_def str_in_iff Let_def)
  show ?thesis
    unfolding handle_list_todos_def Let_def filt
    by (cases "status_filter_of user_input")
       (auto simp: io_defs join2 list_heading_def newline_def simp del: list.map bulleted.simps)
qed

theorem list_todos_response_witness:
  "handle_list_todos (mem_services echo) ''list what is DONE'' 1 empty_world
     = (Inr ''You don't have any completed todos right now.'', empty_world)
   \<and> handle_list_todos (mem_services echo) ''show everything'' 1 todo_world
     = (Inr (''Here are your todos:'' @ [CHR 0x0A] @ ''- buy milk'' @ [CHR 0x0A] @ ''- boil eggs''),
        todo_world)
   \<and> handle_list_todos broken_listing ''list pending'' 1 todo_world
     = (Inl connection_lost, todo_world)"
proof -
  have f1: "status_filter_of ''list what is DONE'' = Some True"
    by (simp add: status_filter_of_def str_in_iff[symmetric] str_eval)
  have f2: "status_filter_of ''show everything'' = None"
    by (simp add: status_filter_of_def str_in_iff[symmetric] str_eval)
  have f3: "status_filter_of ''list pending'' = Some False"
    by (simp add: status_filter_of_def str_in_iff[symmetric] str_eval)
  have h1: "get_user_todos (mem_services echo) 1 (status_filter_of ''list what is DONE'') 1 20 empty_world
      = (Inr ([], 0), empty_world)"
    by (simp add: f1 mem_eval)
  have h2: "get_user_todos (mem_services echo) 1 (status_filter_of ''show everything'') 1 20 todo_world
      = (Inr (milk # [eggs], 2), todo_world)"
    by (simp add: f2 world_eval)
  have h3: "get_user_todos broken_listing 1 (status_filter_of ''list pending'') 1 20 todo_world
      = (Inl connection_lost, todo_world)"
    by (simp add: broken_listing_def io_defs)
  have a: "handle_list_todos (mem_services echo) ''list what is DONE'' 1 empty_world
     = (Inr ''You don't have any completed todos right now.'', empty_world)"
    using list_todos_response[where sv = "mem_services echo" and user = 1 and s = empty_world
        and user_input = "''list what is DONE''" and cnt = 0 and ?s1.0 = empty_world] h1 f1
    by simp
  have b: "handle_list_todos (mem_services echo) ''show everything'' 1 todo_world
     = (Inr (''Here are your todos:'' @ [CHR 0x0A] @ ''- buy milk'' @ [CHR 0x0A] @ ''- boil eggs''),
        todo_world)"
    using list_todos_response[where sv = "mem_services echo" and user = 1 and s = todo_world
        and user_input = "''show everything''" and cnt = 2 and ?s1.0 = todo_world
        and t = milk and rest = "[eggs]"] h2 f2
    by (simp add: list_heading_def eggs_def milk_def)
  have c: "handle_list_todos broken_listing ''list pending'' 1 todo_world
     = (Inl connection_lost, todo_world)"
    using list_todos_response[where sv = broken_listing
        and user = 1 and s = todo_world and user_input = "''list pending''"
        and e = connection_lost and ?s1.0 = todo_world] h3
    by blast
  from a b c show ?thesis by simp
qed

section \<open>C7: completing twice\<close>

text \<open>
  C7. For a user with at least one todo, the Complete handler inverts the completion flag of
  the most recently created todo of the user, and a second call inverts it again: the store
  is then as it was before the two calls. The first response reports "completed" and the
  second "marked as incomplete" when the todo was incomplete at the start (and the other way
  round when it was complete). The store is the in-memory store modelled from the
  specification, since \<open>TodoService\<close> is not among the sources.
\<close>

theorem complete_twice_restores:
  assumes "get_user_todos (mem_services reply) user None 1 1 w = (Inr (t # rest, cnt), w')"
  shows "\<exists>w1. handle_complete_todo (mem_services reply) input1 user w
              = (Inr (''I've marked '' @ quoted (title t) @ '' as ''
                      @ (if is_completed t then ''marked as incomplete'' else ''completed'') @ ''.''), w1)
          \<and> get_user_todos (mem_services reply) user None 1 1 w1
              = (Inr ([t\<lparr>is_completed := \<not> is_completed t\<rparr>], cnt), w1)
          \<and> handle_complete_todo (mem_services reply) input2 user w1
              = (Inr (''I've marked '' @ quoted (title t) @ '' as ''
                      @ (if is_completed t then ''completed'' else ''marked as incomplete'') @ ''.''), w)"
proof -
  let ?toggled = "toggled (str_nat (todo_id t)) user"
  let ?t' = "t\<lparr>is_completed := \<not> is_completed t\<rparr>"
  let ?w1 = "w\<lparr>todo_table := map ?toggled (todo_table w)\<rparr>"
  from mem_lookup_most_recent[OF assms] obtain ts where
    mine: "map snd (filter (\<lambda>(owner, t). owner = user) (todo_table w)) = t # ts"
    and cnt: "cnt = Suc (length ts)"
    by auto
  have first: "handle_complete_todo (mem_services reply) input1 user w
      = (Inr (''I've marked '' @ quoted (title t) @ '' as ''
              @ (if is_completed t then ''marked as incomplete'' else ''completed'') @ ''.''), ?w1)"
    using mine by (rule mem_complete_most_recent)
  from mine obtain x xs where
    fx: "filter (\<lambda>(owner, t). owner = user) (todo_table w) = x # xs"
    and x: "snd x = t" and xs: "map snd xs = ts"
    by (cases "filter (\<lambda>(owner, t). owner = user) (todo_table w)") auto
  have "x \<in> set (filter (\<lambda>(owner, t). owner = user) (todo_table w))" using fx by simp
  then have "fst x = user" by auto
  with x have xeq: "x = (user, t)" by (cases x) simp
  have flipped: "filter (\<lambda>(owner, t). owner = user) (todo_table ?w1) = ?toggled x # map ?toggled xs"
    by (simp add: filter_owner_toggled fx)
  have "?toggled x = (user, ?t')"
    by (simp add: xeq toggled_def names_def)
  with flipped have mine1: "map snd (filter (\<lambda>(owner, t). owner = user) (todo_table ?w1))
      = ?t' # map snd (map ?toggled xs)"
    by simp
  have lookup1: "get_user_todos (mem_services reply) user None 1 1 ?w1
      = (Inr ([?t'], cnt), ?w1)"
  proof -
    from xs have "length ts = length xs" by auto
    with mem_lookup_of_mine[OF mine1, of reply] cnt show ?thesis by simp
  qed
  have restored: "?w1\<lparr>todo_table := map (toggled (str_nat (todo_id ?t')) user) (todo_table ?w1)\<rparr> = w"
    by (simp add: toggled_toggled comp_def)
  have second: "handle_complete_todo (mem_services reply) input2 user ?w1
      = (Inr (''I've marked '' @ quoted (title t) @ '' as ''
              @ (if is_completed t then ''completed'' else ''marked as incomplete'') @ ''.''), w)"
    using mem_complete_most_recent[OF mine1, of reply input2] restored by simp
  from first lookup1 second show ?thesis by blast
qed

theorem complete_twice_restores_witness:
  "get_user_todos (mem_services echo) 1 None 1 1 todo_world = (Inr ([milk], 2), todo_world)
   \<and> handle_complete_todo (mem_services echo) ''mark it done'' 1 todo_world
      = (Inr ''I've marked 'buy milk' as completed.'',
         todo_world\<lparr>todo_table := [(1, milk\<lparr>is_completed := True\<rparr>), (1, eggs)]\<rparr>)
   \<and> handle_complete_todo (mem_services echo) ''mark it done'' 1
        (todo_world\<lparr>todo_table := [(1, milk\<lparr>is_completed := True\<rparr>), (1, eggs)]\<rparr>)
      = (Inr ''I've marked 'buy milk' as marked as incomplete.'', todo_world)"
proof -
  let ?w1 = "todo_world\<lparr>todo_table := [(1, milk\<lparr>is_completed := True\<rparr>), (1, eggs)]\<rparr>"
  have lookup: "get_user_todos (mem_services echo) 1 None 1 1 todo_world
      = (Inr (milk # [], 2), todo_world)"
    by (simp add: world_eval)
  have first: "handle_complete_todo (mem_services echo) ''mark it done'' 1 todo_world
      = (Inr ''I've marked 'buy milk' as completed.'', ?w1)"
    by (simp add: handle_complete_todo_def extract_todo_id_def quoted_def io_defs world_eval)
  from complete_twice_restores[OF lookup, of "''mark it done''" "''mark it done''"]
  obtain w1 where
    a: "handle_complete_todo (mem_services echo) ''mark it done'' 1 todo_world
        = (Inr (''I've marked '' @ quoted (title milk) @ '' as ''
                @ (if is_completed milk then ''marked as incomplete'' else ''completed'') @ ''.''), w1)"
    and b: "handle_complete_todo (mem_services echo) ''mark it done'' 1 w1
        = (Inr (''I've marked '' @ quoted (title milk) @ '' as ''
                @ (if is_completed milk then ''completed'' else ''marked as incomplete'') @ ''.''),
           todo_world)"
    by blast
  from a first have "w1 = ?w1" by simp
  with b have "handle_complete_todo (mem_services echo) ''mark it done'' 1 ?w1
      = (Inr ''I've marked 'buy milk' as marked as incomplete.'', todo_world)"
    by (simp add: milk_def quoted_def)
  with lookup first show ?thesis by simp
qed

section \<open>C8: updating\<close>

text \<open>
  C8. The Update handler looks up the most recent todo of the user itself, by page 1 of one
  item. The new title is the input as typed (not lowercased, so only the lower-case tokens
  match) with every occurrence of update, then of change, then of modify removed, each by one
  scan from the left, and the result trimmed. Without a todo the handler answers "You don't
  have any todos to update."; with an empty new title it asks the user to specify; otherwise
  it updates the title of that todo to the new title and reports the title of the todo the
  store returns.
\<close>

theorem update_most_recent_title:
  "(get_user_todos sv user None 1 1 s = (Inr ([], cnt), s1)
      \<longrightarrow> handle_update_todo sv user_input user s
           = (Inr ''You don't have any todos to update.'', s1))
   \<and> (get_user_todos sv user None 1 1 s = (Inr (t # rest, cnt), s1)
        \<and> update_title_of user_input = []
      \<longrightarrow> handle_update_todo sv user_input user s
           = (Inr ''Please specify what you'd like to change the todo to.'', s1))
   \<and> (get_user_todos sv user None 1 1 s = (Inr (t # rest, cnt), s1)
        \<and> update_title_of user_input \<noteq> []
      \<longrightarrow> handle_update_todo sv user_input user s
           = io_bind (update_todo sv (str_id sv (todo_id t)) user
                        \<lparr>update_title = Some (update_title_of user_input),
                         update_description = None, update_is_completed = None\<rparr>)
               (\<lambda>updated. io_return (''I've updated the todo to '' @ quoted (title updated) @ ''.''))
               s1)
   \<and> update_title_of ''update the title to Buy milk'' = ''the title to Buy milk''
   \<and> update_title_of ''Update the title'' = ''Update the title''
   \<and> update_title_of ''upupdatedate it'' = ''update it''
   \<and> update_title_of ''chaupdatenge it'' = ''it''"
proof -
  have eq: "str_strip (str_replace (str_replace (str_replace user_input ''update'' '''')
              ''change'' '''') ''modify'' '''') = update_title_of user_input" for user_input
    by (simp add: update_title_of_def str_replace_remove str_strip_trim)
  have a: "get_user_todos sv user None 1 1 s = (Inr ([], cnt), s1)
      \<longrightarrow> handle_update_todo sv user_input user s
           = (Inr ''You don't have any todos to update.'', s1)"
    by (simp add: handle_update_todo_def io_defs)
  have b: "get_user_todos sv user None 1 1 s = (Inr (t # rest, cnt), s1)
        \<and> update_title_of user_input = []
      \<longrightarrow> handle_update_todo sv user_input user s
           = (Inr ''Please specify what you'd like to change the todo to.'', s1)"
    by (simp add: handle_update_todo_def io_defs eq Let_def)
  have c: "get_user_todos sv user None 1 1 s = (Inr (t # rest, cnt), s1)
        \<and> update_title_of user_input \<noteq> []
      \<longrightarrow> handle_update_todo sv user_input user s
           = io_bind (update_todo sv (str_id sv (todo_id t)) user
                        \<lparr>update_title = Some (update_title_of user_input),
                         update_description = None, update_is_completed = None\<rparr>)
               (\<lambda>updated. io_return (''I've updated the todo to '' @ quoted (title updated) @ ''.''))
               s1"
    by (simp add: handle_update_todo_def io_defs eq Let_def)
  have d: "update_title_of ''update the title to Buy milk'' = ''the title to Buy milk''"
    by (simp add: update_title_of_def trim_def isspace_def)
  have e: "update_title_of ''Update the title'' = ''Update the title''"
    by (simp add: update_title_of_def trim_def isspace_def)
  have f: "update_title_of ''upupdatedate it'' = ''update it''"
    by (simp add: update_title_of_def trim_def isspace_def)
  have g: "update_title_of ''chaupdatenge it'' = ''it''"
    by (simp add: update_title_of_def trim_def isspace_def)
  from a b c d e f g show ?thesis by blast
qed

theorem update_most_recent_title_witness:
  "handle_update_todo (mem_services echo) ''update it'' 1 empty_world
     = (Inr ''You don't have any todos to update.'', empty_world)
   \<and> handle_update_todo (mem_services echo) '' update '' 1 todo_world
     = (Inr ''Please specify what you'd like to change the todo to.'', todo_world)
   \<and> handle_update_todo (mem_services echo) ''update Buy oat milk'' 1 todo_world
     = (Inr ''I've updated the todo to 'Buy oat milk'.'',
        todo_world\<lparr>todo_table := [(1, milk\<lparr>title := ''Buy oat milk''\<rparr>), (1, eggs)]\<rparr>)"
proof -
  note t = update_most_recent_title[where sv = "mem_services echo" and user = 1]
  have none: "get_user_todos (mem_services echo) 1 None 1 1 empty_world = (Inr ([], 0), empty_world)"
    by (simp add: mem_eval)
  have some: "get_user_todos (mem_services echo) 1 None 1 1 todo_world = (Inr (milk # [], 2), todo_world)"
    by (simp add: world_eval)
  have blank: "update_title_of '' update '' = []"
    by (simp add: update_title_of_def trim_def isspace_def)
  have oat: "update_title_of ''update Buy oat milk'' = ''Buy oat milk''"
    by (simp add: update_title_of_def trim_def isspace_def)
  have a: "handle_update_todo (mem_services echo) ''update it'' 1 empty_world
     = (Inr ''You don't have any todos to update.'', empty_world)"
    using t[where s = empty_world and cnt = 0 and ?s1.0 = empty_world and user_input = "''update it''"] none
    by blast
  have b: "handle_update_todo (mem_services echo) '' update '' 1 todo_world
     = (Inr ''Please specify what you'd like to change the todo to.'', todo_world)"
    using t[where s = todo_world and cnt = 2 and ?s1.0 = todo_world and user_input = "'' update ''"
        and t = milk and rest = "[]"] some blank
    by blast
  have "handle_update_todo (mem_services echo) ''update Buy oat milk'' 1 todo_world
     = io_bind (update_todo (mem_services echo) (str_id (mem_services echo) (todo_id milk)) 1
                  \<lparr>update_title = Some (update_title_of ''update Buy oat milk''),
                   update_description = None, update_is_completed = None\<rparr>)
         (\<lambda>updated. io_return (''I've updated the todo to '' @ quoted (title updated) @ ''.''))
         todo_world"
    using t[where s = todo_world and cnt = 2 and ?s1.0 = todo_world
        and user_input = "''update Buy oat milk''" and t = milk and rest = "[]"] some oat
    by simp
  also have "\<dots> = (Inr ''I've updated the todo to 'Buy oat milk'.'',
        todo_world\<lparr>todo_table := [(1, milk\<lparr>title := ''Buy oat milk''\<rparr>), (1, eggs)]\<rparr>)"
    by (simp add: oat io_defs world_eval quoted_def)
  finally have c: "handle_update_todo (mem_services echo) ''update Buy oat milk'' 1 todo_world
     = (Inr ''I've updated the todo to 'Buy oat milk'.'',
        todo_world\<lparr>todo_table := [(1, milk\<lparr>title := ''Buy oat milk''\<rparr>), (1, eggs)]\<rparr>)" .
  from a b c show ?thesis by simp
qed

section \<open>C9: deleting without a todo\<close>

text \<open>
  C9. When the user owns no todo (the lookup of the most recent one returns an empty page),
  the Delete handler answers "I couldn't find a specific todo to delete. Please specify which
  todo you want to delete." and leaves the state as the lookup left it. It does not call
  \<open>delete_todo\<close>: the outcome is the same whatever \<open>delete_todo\<close> would do, so no
  error of the store arises from it. The same holds of the handler the dispatcher invokes
  for an input classified as delete.
\<close>

theorem delete_without_todos:
  assumes "get_user_todos sv user None 1 1 s = (Inr ([], cnt), s1)"
  shows "handle_delete_todo sv user_input user s
           = (Inr ''I couldn't find a specific todo to delete. Please specify which todo you want to delete.'', s1)
       \<and> handle_delete_todo (sv\<lparr>delete_todo := d\<rparr>) user_input user s
           = handle_delete_todo sv user_input user s
       \<and> (determine_intent (str_lower user_input) = ''delete''
           \<longrightarrow> classified_handler sv user_input conversation user s
               = (Inr ''I couldn't find a specific todo to delete. Please specify which todo you want to delete.'', s1))"
  using assms
  by (simp add: handle_delete_todo_def extract_todo_id_def io_defs classified_handler_def
      dispatch_intent_def)

theorem delete_without_todos_witness:
  "get_user_todos (mem_services echo) 1 None 1 1 empty_world = (Inr ([], 0), empty_world)
   \<and> determine_intent (str_lower ''delete it'') = ''delete''
   \<and> handle_delete_todo (mem_services echo) ''delete it'' 1 empty_world
       = (Inr ''I couldn't find a specific todo to delete. Please specify which todo you want to delete.'', empty_world)
   \<and> handle_delete_todo (mem_services echo\<lparr>delete_todo := \<lambda>i u. io_raise connection_lost\<rparr>)
         ''delete it'' 1 empty_world
       = (Inr ''I couldn't find a specific todo to delete. Please specify which todo you want to delete.'', empty_world)
   \<and> classified_handler (mem_services echo) ''delete it'' 1 1 empty_world
       = (Inr ''I couldn't find a specific todo to delete. Please specify which todo you want to delete.'', empty_world)"
proof -
  have h: "get_user_todos (mem_services echo) 1 None 1 1 empty_world = (Inr ([], 0), empty_world)"
    by (simp add: mem_eval)
  have i: "determine_intent (str_lower ''delete it'') = ''delete''"
    by (simp add: intent_eval str_eval)
  from delete_without_todos[OF h, of "''delete it''" "\<lambda>i u. io_raise connection_lost" 1] h i
  show ?thesis by simp
qed

section \<open>C10: what the dispatcher does not catch\<close>

text \<open>
  C10. Only the handlers run inside the \<open>try\<close> block. An exception raised by the
  lookup of the conversation, by its creation, by logging the user message or by logging the
  assistant message leaves \<open>process_natural_language_todo_command\<close> as that exception:
  the call raises it to the caller and returns no apologetic string.
\<close>

theorem setup_and_logging_errors_propagate:
  "(get_user_conversations sv user 1 1 s = (Inl e, s1)
      \<longrightarrow> process_natural_language_todo_command sv user_input user s = (Inl e, s1))
   \<and> (get_user_conversations sv user 1 1 s = (Inr ([], cnt), s1)
        \<and> create_conversation sv user s1 = (Inl e, s2)
      \<longrightarrow> process_natural_language_todo_command sv user_input user s = (Inl e, s2))
   \<and> (active_conversation sv user s = (Inr conversation, s1)
        \<and> create_message sv conversation ''user'' user_input s1 = (Inl e, s2)
      \<longrightarrow> process_natural_language_todo_command sv user_input user s = (Inl e, s2))
   \<and> (active_conversation sv user s = (Inr conversation, s1)
        \<and> create_message sv conversation ''user'' user_input s1 = (Inr m, s2)
        \<and> io_try (classified_handler sv user_input conversation user)
              (\<lambda>e. io_return (error_response e)) s2 = (Inr response, s3)
        \<and> create_message sv conversation ''assistant'' response s3 = (Inl e, s4)
      \<longrightarrow> process_natural_language_todo_command sv user_input user s = (Inl e, s4))"
  by (auto simp: process_natural_language_todo_command_def active_conversation_def
        classified_handler_def io_defs Let_def split: prod.splits sum.splits list.splits)

theorem setup_and_logging_errors_propagate_witness:
  "process_natural_language_todo_command no_lookup ''hello'' 1 empty_world
     = (Inl connection_lost, empty_world)
   \<and> process_natural_language_todo_command no_creation ''hello'' 1 empty_world
     = (Inl connection_lost, empty_world)
   \<and> process_natural_language_todo_command no_logging ''hello'' 1 empty_world
     = (Inl connection_lost, empty_world\<lparr>conv_table := [(1, 1)], next_id := 2\<rparr>)
   \<and> process_natural_language_todo_command no_assistant_logging ''hello'' 1 empty_world
     = (Inl connection_lost,
        empty_world\<lparr>conv_table := [(1, 1)], next_id := 2,
          msg_table := [(1, \<lparr>role = ''user'', content = ''hello''\<rparr>)],
          ai_log := [([\<lparr>entry_role = ''user'', parts = [''hello'']\<rparr>], ''hello'')]\<rparr>)"
proof -
  let ?wa = "empty_world\<lparr>conv_table := [(1, 1)], next_id := 2\<rparr>"
  let ?u = "\<lparr>role = ''user'', content = ''hello''\<rparr>"
  let ?wb = "empty_world\<lparr>conv_table := [(1, 1)], next_id := 2, msg_table := [(1, ?u)]\<rparr>"
  let ?wc = "empty_world\<lparr>conv_table := [(1, 1)], next_id := 2, msg_table := [(1, ?u)],
          ai_log := [([\<lparr>entry_role = ''user'', parts = [''hello'']\<rparr>], ''hello'')]\<rparr>"
  note t = setup_and_logging_errors_propagate
  have a1: "get_user_conversations no_lookup 1 1 1 empty_world = (Inl connection_lost, empty_world)"
    by (simp add: no_lookup_def io_defs)
  have a: "process_natural_language_todo_command no_lookup ''hello'' 1 empty_world
     = (Inl connection_lost, empty_world)"
    using t[where sv = no_lookup and user = 1 and s = empty_world and e = connection_lost
        and ?s1.0 = empty_world and user_input = "''hello''"] a1
    by blast
  have b1: "get_user_conversations no_creation 1 1 1 empty_world = (Inr ([], 0), empty_world)"
    by (simp add: no_creation_def mem_eval)
  have b2: "create_conversation no_creation 1 empty_world = (Inl connection_lost, empty_world)"
    by (simp add: no_creation_def io_defs)
  have b: "process_natural_language_todo_command no_creation ''hello'' 1 empty_world
     = (Inl connection_lost, empty_world)"
    using t[where sv = no_creation and user = 1 and s = empty_world and e = connection_lost
        and cnt = 0 and ?s1.0 = empty_world and ?s2.0 = empty_world and user_input = "''hello''"]
      b1 b2
    by blast
  have c1: "active_conversation no_logging 1 empty_world = (Inr 1, ?wa)"
    by (simp add: active_conversation_def no_logging_def io_defs mem_eval)
  have c2: "create_message no_logging 1 ''user'' ''hello'' ?wa = (Inl connection_lost, ?wa)"
    by (simp add: no_logging_def io_defs)
  have c: "process_natural_language_todo_command no_logging ''hello'' 1 empty_world
     = (Inl connection_lost, ?wa)"
    using t[where sv = no_logging and user = 1 and s = empty_world and e = connection_lost
        and conversation = 1 and ?s1.0 = ?wa and ?s2.0 = ?wa and user_input = "''hello''"]
      c1 c2
    by blast
  have d1: "active_conversation no_assistant_logging 1 empty_world = (Inr 1, ?wa)"
    by (simp add: active_conversation_def no_assistant_logging_def io_defs mem_eval)
  have d2: "create_message no_assistant_logging 1 ''user'' ''hello'' ?wa = (Inr ?u, ?wb)"
    by (simp add: no_assistant_logging_def io_defs mem_eval)
  have i: "determine_intent (str_lower ''hello'') = ''other''"
    by (simp add: intent_eval str_eval)
  have d3: "io_try (classified_handler no_assistant_logging ''hello'' 1 1)
      (\<lambda>e. io_return (error_response e)) ?wb = (Inr ''Hello! How can I help?'', ?wc)"
    by (simp add: classified_handler_def i dispatch_intent_def handle_general_query_def
        no_assistant_logging_def io_defs mem_eval)
  have d4: "create_message no_assistant_logging 1 ''assistant'' ''Hello! How can I help?'' ?wc
      = (Inl connection_lost, ?wc)"
    by (simp add: no_assistant_logging_def io_defs)
  have d: "process_natural_language_todo_command no_assistant_logging ''hello'' 1 empty_world
     = (Inl connection_lost, ?wc)"
    using t[where sv = no_assistant_logging and user = 1 and s = empty_world
        and e = connection_lost and conversation = 1 and ?s1.0 = ?wa and ?s2.0 = ?wb
        and ?s3.0 = ?wc and ?s4.0 = ?wc and m = ?u
        and response = "''Hello! How can I help?''" and user_input = "''hello''"]
      d1 d2 d3 d4
    by blast
  from a b c d show ?thesis by simp
qed

end
